theory Spec2Isabelle
  imports Complex_Main "HOL-Library.Word"
begin

section \<open>JavaScript values and the built-in coercions the server relies on\<close>

text \<open>
  The option object of \<open>gofullpage_server.js\<close> is filled from a parsed query string
  (every value a string) or from a parsed JSON body (any JSON value). The model keeps
  the primitive values: \<open>undefined\<close> (an absent key), \<open>null\<close>, booleans, numbers and
  strings. A number is an integer from \<open>-2^53\<close> to \<open>2^53 - 1\<close>, the signed value of a
  54-bit word: each of these is a double and \<open>Number::toString\<close> prints its decimal
  digits. Strings are ASCII. Fractions, larger numbers, arrays and nested objects (a
  repeated query key, a structured JSON value) are left out.
\<close>

datatype jsval = JUndefined | JNull | JBool bool | JNum "54 word" | JStr string

type_synonym bytes = "8 word list"

definition falsy :: "jsval \<Rightarrow> bool" where
  \<comment> \<open>\<open>!v\<close>\<close>
  "falsy v = (case v of
       JUndefined \<Rightarrow> True
     | JNull \<Rightarrow> True
     | JBool b \<Rightarrow> \<not> b
     | JNum n \<Rightarrow> n = 0
     | JStr s \<Rightarrow> s = [])"

definition dflt :: "jsval \<Rightarrow> jsval \<Rightarrow> jsval" where
  \<comment> \<open>a destructuring default \<open>{ x = d }\<close>: used only when the property is \<open>undefined\<close>\<close>
  "dflt d v = (if v = JUndefined then d else v)"

definition digit_char :: "nat \<Rightarrow> char" where
  "digit_char d = ''0123456789'' ! d"

fun show_nat :: "nat \<Rightarrow> string" where
  "show_nat n = (if n < 10 then [digit_char n] else show_nat (n div 10) @ [digit_char (n mod 10)])"

declare show_nat.simps [simp del]

definition show_int :: "int \<Rightarrow> string" where
  "show_int i = (if i < 0 then CHR ''-'' # show_nat (nat (- i)) else show_nat (nat i))"

definition js_to_string :: "jsval \<Rightarrow> string" where
  \<comment> \<open>\<open>ToString\<close>, as used by template literals, \<open>parseInt\<close> and property keys\<close>
  "js_to_string v = (case v of
       JUndefined \<Rightarrow> ''undefined''
     | JNull \<Rightarrow> ''null''
     | JBool b \<Rightarrow> (if b then ''true'' else ''false'')
     | JNum n \<Rightarrow> show_int (sint n)
     | JStr s \<Rightarrow> s)"

definition is_ws :: "char \<Rightarrow> bool" where
  "is_ws c = (c \<in> set [CHR 0x09, CHR 0x0A, CHR 0x0B, CHR 0x0C, CHR 0x0D, CHR 0x20])"

definition digit_of :: "nat \<Rightarrow> char \<Rightarrow> nat option" where
  \<comment> \<open>the value of \<open>c\<close> as a digit of radix \<open>r\<close>, if it is one\<close>
  "digit_of r c =
     (let k = (of_char c :: nat);
          d = (if 48 \<le> k \<and> k \<le> 57 then Some (k - 48)
               else if 97 \<le> k \<and> k \<le> 122 then Some (k - 87)
               else if 65 \<le> k \<and> k \<le> 90 then Some (k - 55)
               else None)
      in case d of None \<Rightarrow> None | Some v \<Rightarrow> (if v < r then Some v else None))"

definition is_digit :: "nat \<Rightarrow> char \<Rightarrow> bool" where
  "is_digit r c = (digit_of r c \<noteq> None)"

definition radix_value :: "nat \<Rightarrow> string \<Rightarrow> nat" where
  "radix_value r ds =
     foldl (\<lambda>acc c. acc * r + (case digit_of r c of None \<Rightarrow> 0 | Some v \<Rightarrow> v)) 0 ds"

definition has_prefix :: "string \<Rightarrow> string \<Rightarrow> bool" where
  "has_prefix p s = (take (length p) s = p)"

text \<open>
  The result of \<open>parseInt\<close> is a double: NaN, an infinity, or an integer that a double
  represents. The integer written by the digits is rounded to the nearest double, ties to
  the even significand, and overflows to an infinity from \<open>2^1024\<close> on.
\<close>

datatype number = NaN | Num int | PosInfinity | NegInfinity

fun bit_length :: "nat \<Rightarrow> nat" where
  "bit_length n = (if n = 0 then 0 else Suc (bit_length (n div 2)))"

declare bit_length.simps [simp del]

definition round_double :: "nat \<Rightarrow> nat option" where
  \<comment> \<open>the double nearest to \<open>n\<close>; \<open>None\<close> when that is Infinity\<close>
  "round_double n =
     (if n < 2 ^ 53 then Some n
      else
        (let e = bit_length n - 53;
             q = n div 2 ^ e;
             r = n mod 2 ^ e;
             q' = (if 2 ^ (e - 1) < r \<or> (r = 2 ^ (e - 1) \<and> odd q) then q + 1 else q)
         in if q' * 2 ^ e < 2 ^ 1024 then Some (q' * 2 ^ e) else None))"

definition parseInt_string :: "string \<Rightarrow> number" where
  \<comment> \<open>\<open>parseInt(s)\<close> with no radix argument\<close>
  "parseInt_string s =
     (let s1 = dropWhile is_ws s;
          neg = has_prefix ''-'' s1;
          s2 = (if has_prefix ''+'' s1 \<or> has_prefix ''-'' s1 then drop 1 s1 else s1);
          hex = (has_prefix ''0x'' s2 \<or> has_prefix ''0X'' s2);
          r = (if hex then 16 else 10);
          s3 = (if hex then drop 2 s2 else s2);
          z = takeWhile (is_digit r) s3
      in if z = [] then NaN
         else (case round_double (radix_value r z) of
                 None \<Rightarrow> (if neg then NegInfinity else PosInfinity)
               | Some v \<Rightarrow> Num ((if neg then - 1 else 1) * int v)))"

definition parseInt :: "jsval \<Rightarrow> number" where
  "parseInt v = parseInt_string (js_to_string v)"

text \<open>
  \<open>delay > 0\<close> compares \<open>ToNumber(delay)\<close> with zero. For a string that is
  \<open>StringToNumber\<close>: surrounding white space is dropped, the empty string is \<open>0\<close>,
  \<open>0x\<close>, \<open>0o\<close> and \<open>0b\<close> introduce unsigned integer literals, and a decimal literal
  may carry a sign, a fraction and an exponent. Only the sign of the result is needed:
  a positive decimal \<open>m \<times> 10^k\<close> is positive as a double unless it rounds to zero, which
  it does exactly when it is at most \<open>2^-1075\<close>.
\<close>

definition trim :: "string \<Rightarrow> string" where
  "trim s = rev (dropWhile is_ws (rev (dropWhile is_ws s)))"

definition radix_literal_positive :: "nat \<Rightarrow> string \<Rightarrow> bool" where
  "radix_literal_positive r ds =
     (ds \<noteq> [] \<and> list_all (is_digit r) ds \<and> 0 < radix_value r ds)"

definition exponent_of :: "string \<Rightarrow> int option" where
  \<comment> \<open>the exponent part after the mantissa: empty, or \<open>e\<close>/\<open>E\<close>, an optional sign, digits\<close>
  "exponent_of s =
     (if s = [] then Some 0
      else if has_prefix ''e'' s \<or> has_prefix ''E'' s then
        (let s1 = drop 1 s;
             neg = has_prefix ''-'' s1;
             s2 = (if has_prefix ''+'' s1 \<or> has_prefix ''-'' s1 then drop 1 s1 else s1)
         in if s2 \<noteq> [] \<and> list_all (is_digit 10) s2
            then Some ((if neg then - 1 else 1) * int (radix_value 10 s2))
            else None)
      else None)"

definition decimal_literal_positive :: "string \<Rightarrow> bool" where
  \<comment> \<open>an unsigned decimal literal whose double value is greater than zero\<close>
  "decimal_literal_positive u =
     (let ip = takeWhile (is_digit 10) u;
          r1 = dropWhile (is_digit 10) u;
          dot = has_prefix ''.'' r1;
          fp = (if dot then takeWhile (is_digit 10) (drop 1 r1) else []);
          r2 = (if dot then dropWhile (is_digit 10) (drop 1 r1) else r1);
          m = radix_value 10 (ip @ fp)
      in if ip = [] \<and> fp = [] then False
         else case exponent_of r2 of
                None \<Rightarrow> False
              | Some e \<Rightarrow>
                  (let k = e - int (length fp)
                   in 0 < m \<and> (0 \<le> k \<or> (10::int) ^ nat (- k) < int m * 2 ^ 1075)))"

definition string_gt_zero :: "string \<Rightarrow> bool" where
  "string_gt_zero s =
     (let t = trim s
      in if has_prefix ''0x'' t \<or> has_prefix ''0X'' t then radix_literal_positive 16 (drop 2 t)
         else if has_prefix ''0o'' t \<or> has_prefix ''0O'' t then radix_literal_positive 8 (drop 2 t)
         else if has_prefix ''0b'' t \<or> has_prefix ''0B'' t then radix_literal_positive 2 (drop 2 t)
         else if has_prefix ''-'' t then False
         else (let u = (if has_prefix ''+'' t then drop 1 t else t)
               in u = ''Infinity'' \<or> decimal_literal_positive u))"

definition js_gt_zero :: "jsval \<Rightarrow> bool" where
  \<comment> \<open>\<open>v > 0\<close>\<close>
  "js_gt_zero v = (case v of
       JUndefined \<Rightarrow> False
     | JNull \<Rightarrow> False
     | JBool b \<Rightarrow> b
     | JNum n \<Rightarrow> 0 < sint n
     | JStr s \<Rightarrow> string_gt_zero s)"

section \<open>The browser capability and the calls made on it\<close>

text \<open>
  Every browser operation of \<open>capture\<close> is an awaited promise of the automation library:
  it resolves with a value or rejects with an error, of which the server only ever reads
  the message. The behaviour of the browser for one request is an input of the model.
  Each awaited promise is taken to settle.
\<close>

datatype 'a outcome = Ok 'a | Throws string

datatype image_type = Png | Jpeg

record dimensions =
  dim_width :: int
  dim_height :: int
  dim_title :: string

record browser =
  newPage :: "unit outcome"
  setViewport :: "number \<Rightarrow> number \<Rightarrow> bool \<Rightarrow> unit outcome"
  goto :: "jsval \<Rightarrow> number \<Rightarrow> unit outcome"
  evaluateHideSticky :: "unit outcome"
  evaluateDimensions :: "dimensions outcome"
  pdf :: "bytes outcome"
  screenshot :: "image_type \<Rightarrow> int option \<Rightarrow> bytes outcome"
  closePage :: "unit outcome"
  now :: string

text \<open>
  The calls a capture makes, in order, with the arguments the server computes. A
  screenshot is always taken with \<open>fullPage: true\<close>; its arguments here are the image
  type and the quality. \<open>Wait\<close> is the timer of the delay, which cannot fail.
\<close>

datatype event =
    NewPage
  | SetViewport number number bool
  | Goto jsval number
  | Wait number
  | EvaluateHideSticky
  | EvaluateDimensions
  | Pdf
  | Screenshot image_type "int option"
  | ClosePage

type_synonym 'a io = "event list \<times> 'a outcome"

definition io_return :: "'a \<Rightarrow> 'a io" where
  "io_return v = ([], Ok v)"

definition io_throw :: "string \<Rightarrow> 'a io" where
  "io_throw e = ([], Throws e)"

definition call :: "event \<Rightarrow> 'a outcome \<Rightarrow> 'a io" where
  \<comment> \<open>\<open>await\<close> of one browser operation\<close>
  "call ev r = ([ev], r)"

definition io_bind :: "'a io \<Rightarrow> ('a \<Rightarrow> 'b io) \<Rightarrow> 'b io" where
  \<comment> \<open>sequencing: a thrown error skips the rest\<close>
  "io_bind m f = (case m of
       (t, Throws e) \<Rightarrow> (t, Throws e)
     | (t, Ok v) \<Rightarrow> (case f v of (t', r) \<Rightarrow> (t @ t', r)))"

definition io_finally :: "'a io \<Rightarrow> unit io \<Rightarrow> 'a io" where
  \<comment> \<open>\<open>try { m } finally { fin }\<close>: \<open>fin\<close> always runs; if it throws, its error wins\<close>
  "io_finally m fin = (case m of (t, r) \<Rightarrow> (case fin of
       (t', Throws e) \<Rightarrow> (t @ t', Throws e)
     | (t', Ok _) \<Rightarrow> (t @ t', r)))"

section \<open>\<open>GoFullPageServer.capture\<close>\<close>

record options =
  url :: jsval
  targetUrl :: jsval
  format :: jsval
  width :: jsval
  height :: jsval
  mobile :: jsval
  hideSticky :: jsval
  delay :: jsval
  timeout :: jsval
  returnJson :: jsval

record metadata =
  md_url :: jsval
  md_format :: jsval
  md_pageWidth :: int
  md_pageHeight :: int
  md_title :: string
  md_viewport :: string
  md_mobile :: jsval
  md_timestamp :: string
  md_size :: nat

record capture_result =
  success :: bool
  data :: bytes
  metadata :: metadata

text \<open>The destructured options, with their defaults.\<close>

definition opt_format :: "options \<Rightarrow> jsval" where
  "opt_format opts = dflt (JStr ''png'') (format opts)"

definition opt_width :: "options \<Rightarrow> jsval" where
  "opt_width opts = dflt (JNum 1280) (width opts)"

definition opt_height :: "options \<Rightarrow> jsval" where
  "opt_height opts = dflt (JNum 800) (height opts)"

definition opt_mobile :: "options \<Rightarrow> jsval" where
  "opt_mobile opts = dflt (JBool False) (mobile opts)"

definition opt_hideSticky :: "options \<Rightarrow> jsval" where
  "opt_hideSticky opts = dflt (JBool True) (hideSticky opts)"

definition opt_delay :: "options \<Rightarrow> jsval" where
  "opt_delay opts = dflt (JNum 0) (delay opts)"

definition opt_timeout :: "options \<Rightarrow> jsval" where
  "opt_timeout opts = dflt (JNum 30000) (timeout opts)"

definition capture_open :: "browser \<Rightarrow> options \<Rightarrow> unit io" where
  \<comment> \<open>lines 54-58: the check of \<open>targetUrl\<close>, then \<open>await this.browser.newPage()\<close>\<close>
  "capture_open b opts =
     (if falsy (targetUrl opts) then io_throw ''URL is required''
      else call NewPage (newPage b))"

definition capture_try :: "browser \<Rightarrow> options \<Rightarrow> capture_result io" where
  \<comment> \<open>lines 60-135: the body of the \<open>try\<close> block\<close>
  "capture_try b opts =
     (let vw = parseInt (opt_width opts);
          vh = parseInt (opt_height opts);
          isMobile = (opt_mobile opts = JStr ''true'' \<or> opt_mobile opts = JBool True);
          ty = (if opt_format opts = JStr ''jpeg'' then Jpeg else Png);
          quality = (if opt_format opts = JStr ''jpeg'' then Some 85 else None)
      in
      io_bind (call (SetViewport vw vh isMobile) (setViewport b vw vh isMobile)) (\<lambda>_.
      io_bind (call (Goto (targetUrl opts) (parseInt (opt_timeout opts)))
                 (goto b (targetUrl opts) (parseInt (opt_timeout opts)))) (\<lambda>_.
      io_bind (if js_gt_zero (opt_delay opts)
               then call (Wait (parseInt (opt_delay opts))) (Ok ())
               else io_return ()) (\<lambda>_.
      io_bind (if opt_hideSticky opts \<noteq> JStr ''false'' \<and> opt_hideSticky opts \<noteq> JBool False
               then call EvaluateHideSticky (evaluateHideSticky b)
               else io_return ()) (\<lambda>_.
      io_bind (call EvaluateDimensions (evaluateDimensions b)) (\<lambda>dims.
      io_bind (if opt_format opts = JStr ''pdf''
               then call Pdf (pdf b)
               else call (Screenshot ty quality) (screenshot b ty quality)) (\<lambda>result.
      io_return
        \<lparr> success = True,
          data = result,
          metadata =
            \<lparr> md_url = targetUrl opts,
              md_format = opt_format opts,
              md_pageWidth = dim_width dims,
              md_pageHeight = dim_height dims,
              md_title = dim_title dims,
              md_viewport = js_to_string (opt_width opts) @ ''x'' @ js_to_string (opt_height opts),
              md_mobile = opt_mobile opts,
              md_timestamp = now b,
              md_size = length result \<rparr> \<rparr>)))))))"

definition capture_page :: "browser \<Rightarrow> options \<Rightarrow> capture_result io" where
  \<comment> \<open>lines 60-139: \<open>try { ... } finally { await page.close() }\<close>\<close>
  "capture_page b opts = io_finally (capture_try b opts) (call ClosePage (closePage b))"

definition capture :: "browser \<Rightarrow> options \<Rightarrow> capture_result io" where
  "capture b opts = io_bind (capture_open b opts) (\<lambda>_. capture_page b opts)"

definition after_navigation :: "browser \<Rightarrow> options \<Rightarrow> capture_result io" where
  \<comment> \<open>lines 74-135 on their own: what the \<open>try\<close> block does once \<open>page.goto\<close> has resolved\<close>
  "after_navigation b opts =
     (let ty = (if opt_format opts = JStr ''jpeg'' then Jpeg else Png);
          quality = (if opt_format opts = JStr ''jpeg'' then Some 85 else None)
      in
      io_bind (if js_gt_zero (opt_delay opts)
               then call (Wait (parseInt (opt_delay opts))) (Ok ())
               else io_return ()) (\<lambda>_.
      io_bind (if opt_hideSticky opts \<noteq> JStr ''false'' \<and> opt_hideSticky opts \<noteq> JBool False
               then call EvaluateHideSticky (evaluateHideSticky b)
               else io_return ()) (\<lambda>_.
      io_bind (call EvaluateDimensions (evaluateDimensions b)) (\<lambda>dims.
      io_bind (if opt_format opts = JStr ''pdf''
               then call Pdf (pdf b)
               else call (Screenshot ty quality) (screenshot b ty quality)) (\<lambda>result.
      io_return
        \<lparr> success = True,
          data = result,
          metadata =
            \<lparr> md_url = targetUrl opts,
              md_format = opt_format opts,
              md_pageWidth = dim_width dims,
              md_pageHeight = dim_height dims,
              md_title = dim_title dims,
              md_viewport = js_to_string (opt_width opts) @ ''x'' @ js_to_string (opt_height opts),
              md_mobile = opt_mobile opts,
              md_timestamp = now b,
              md_size = length result \<rparr> \<rparr>)))))"

definition is_goto :: "event \<Rightarrow> bool" where
  "is_goto ev = (case ev of Goto u t \<Rightarrow> True | _ \<Rightarrow> False)"

section \<open>The HTTP request handler of \<open>main\<close>\<close>

text \<open>
  A request is taken as \<open>url.parse\<close> delivered it: a method, a path and a parsed query.
  A POST body is what \<open>JSON.parse\<close> made of it: a syntax error, a stream error, \<open>null\<close>,
  some other value without option fields (a number, a string, a boolean, an array), or an
  object carrying the options. For every other method the options are the parsed query.
\<close>

datatype post_body =
    InvalidJson
  | StreamError string
  | JsonNull
  | JsonOther
  | JsonObject options

record request =
  req_method :: string
  req_pathname :: string
  req_query :: options
  req_body :: post_body

datatype header_value =
    HText string
  | HNumber int
  | HUriComponent string   \<comment> \<open>\<open>encodeURIComponent\<close> of the string\<close>
  | HInherited string      \<comment> \<open>the member of \<open>Object.prototype\<close> of that name\<close>

datatype json =
    JsonVal jsval
  | JsonNumber int       \<comment> \<open>a number the server computed\<close>
  | JsonBase64 bytes     \<comment> \<open>\<open>toString('base64')\<close> of the bytes\<close>

datatype http_body = EmptyBody | BinaryBody bytes | JsonBody "(string \<times> json) list" | HtmlBody

record response =
  status :: nat
  headers :: "(string \<times> header_value) list"
  body :: http_body

definition cors_headers :: "(string \<times> header_value) list" where
  "cors_headers =
     [(''Access-Control-Allow-Origin'', HText ''*''),
      (''Access-Control-Allow-Methods'', HText ''GET, POST, OPTIONS''),
      (''Access-Control-Allow-Headers'', HText ''Content-Type'')]"

definition no_options :: options where
  "no_options =
     \<lparr> url = JUndefined, targetUrl = JUndefined, format = JUndefined, width = JUndefined,
       height = JUndefined, mobile = JUndefined, hideSticky = JUndefined, delay = JUndefined,
       timeout = JUndefined, returnJson = JUndefined \<rparr>"

definition null_body_message :: string where
  \<comment> \<open>the TypeError of \<open>options.url\<close> on \<open>null\<close>\<close>
  "null_body_message =
     ''Cannot read properties of null (reading '' @ [CHR 0x27] @ ''url'' @ [CHR 0x27] @ '')''"

definition set_target :: "options \<Rightarrow> options" where
  \<comment> \<open>\<open>options.targetUrl = options.url\<close>: overwrites any \<open>targetUrl\<close> the client sent\<close>
  "set_target opts = opts\<lparr>targetUrl := url opts\<rparr>"

definition read_options :: "request \<Rightarrow> options io" where
  \<comment> \<open>lines 178-200\<close>
  "read_options req =
     (if req_method req = ''POST'' then
        (case req_body req of
           InvalidJson \<Rightarrow> io_throw ''Invalid JSON''
         | StreamError e \<Rightarrow> io_throw e
         | JsonNull \<Rightarrow> io_throw null_body_message
         | JsonOther \<Rightarrow> io_return no_options
         | JsonObject opts \<Rightarrow> io_return (set_target opts))
      else io_return (set_target (req_query req)))"

definition object_prototype_members :: "string list" where
  "object_prototype_members =
     [''constructor'', ''__defineGetter__'', ''__defineSetter__'', ''hasOwnProperty'',
      ''__lookupGetter__'', ''__lookupSetter__'', ''isPrototypeOf'', ''propertyIsEnumerable'',
      ''toString'', ''valueOf'', ''__proto__'', ''toLocaleString'']"

definition content_type_for :: "jsval \<Rightarrow> header_value option" where
  \<comment> \<open>lines 214-218: the object literal indexed by \<open>options.format || 'png'\<close>;
      \<open>None\<close> is \<open>undefined\<close>\<close>
  "content_type_for fmt =
     (let key = js_to_string (if falsy fmt then JStr ''png'' else fmt)
      in if key = ''png'' then Some (HText ''image/png'')
         else if key = ''jpeg'' then Some (HText ''image/jpeg'')
         else if key = ''pdf'' then Some (HText ''application/pdf'')
         else if key \<in> set object_prototype_members then Some (HInherited key)
         else None)"

definition undefined_header_message :: string where
  \<comment> \<open>\<open>writeHead\<close> refuses a header whose value is \<open>undefined\<close>\<close>
  "undefined_header_message =
     ''Invalid value '' @ [CHR 0x22] @ ''undefined'' @ [CHR 0x22] @ '' for header ''
       @ [CHR 0x22] @ ''Content-Type'' @ [CHR 0x22]"

definition metadata_json :: "metadata \<Rightarrow> (string \<times> json) list" where
  "metadata_json m =
     [(''url'', JsonVal (md_url m)),
      (''format'', JsonVal (md_format m)),
      (''pageWidth'', JsonNumber (md_pageWidth m)),
      (''pageHeight'', JsonNumber (md_pageHeight m)),
      (''title'', JsonVal (JStr (md_title m))),
      (''viewport'', JsonVal (JStr (md_viewport m))),
      (''mobile'', JsonVal (md_mobile m)),
      (''timestamp'', JsonVal (JStr (md_timestamp m))),
      (''size'', JsonNumber (int (md_size m)))]"

definition respond :: "options \<Rightarrow> capture_result \<Rightarrow> response io" where
  \<comment> \<open>lines 205-228\<close>
  "respond opts result =
     (if returnJson opts = JStr ''true'' \<or> returnJson opts = JBool True then
        io_return
          \<lparr> status = 200,
            headers = cors_headers @ [(''Content-Type'', HText ''application/json'')],
            body = JsonBody (metadata_json (metadata result) @ [(''data'', JsonBase64 (data result))]) \<rparr>
      else
        (case content_type_for (format opts) of
           None \<Rightarrow> io_throw undefined_header_message
         | Some contentType \<Rightarrow>
             io_return
               \<lparr> status = 200,
                 headers = cors_headers @
                   [(''Content-Type'', contentType),
                    (''Content-Length'', HNumber (int (length (data result)))),
                    (''X-Page-Title'', HUriComponent
                        (if md_title (metadata result) = [] then [] else md_title (metadata result))),
                    (''X-Page-Width'', HNumber (md_pageWidth (metadata result))),
                    (''X-Page-Height'', HNumber (md_pageHeight (metadata result)))],
                 body = BinaryBody (data result) \<rparr>))"

definition error_response :: "string \<Rightarrow> response" where
  \<comment> \<open>lines 232-239: the \<open>catch\<close> block\<close>
  "error_response msg =
     \<lparr> status = 500,
       headers = cors_headers @ [(''Content-Type'', HText ''application/json'')],
       body = JsonBody [(''success'', JsonVal (JBool False)), (''error'', JsonVal (JStr msg))] \<rparr>"

definition caught :: "response io \<Rightarrow> event list \<times> response" where
  \<comment> \<open>\<open>try { ... } catch (error) { ... }\<close> around the screenshot endpoint\<close>
  "caught m = (case m of
       (t, Ok resp) \<Rightarrow> (t, resp)
     | (t, Throws e) \<Rightarrow> (t, error_response e))"

definition screenshot_endpoint :: "browser \<Rightarrow> request \<Rightarrow> event list \<times> response" where
  \<comment> \<open>lines 176-241\<close>
  "screenshot_endpoint b req =
     caught (io_bind (read_options req) (\<lambda>opts.
             io_bind (capture b opts) (\<lambda>result.
             respond opts result)))"

definition options_response :: response where
  "options_response = \<lparr> status = 204, headers = cors_headers, body = EmptyBody \<rparr>"

definition health_response :: "browser \<Rightarrow> response" where
  "health_response b =
     \<lparr> status = 200,
       headers = cors_headers @ [(''Content-Type'', HText ''application/json'')],
       body = JsonBody [(''status'', JsonVal (JStr ''ok'')),
                        (''timestamp'', JsonVal (JStr (now b)))] \<rparr>"

definition docs_response :: response where
  "docs_response =
     \<lparr> status = 200,
       headers = cors_headers @ [(''Content-Type'', HText ''text/html'')],
       body = HtmlBody \<rparr>"

definition not_found_response :: response where
  "not_found_response =
     \<lparr> status = 404,
       headers = cors_headers @ [(''Content-Type'', HText ''application/json'')],
       body = JsonBody [(''error'', JsonVal (JStr ''Not found''))] \<rparr>"

definition handle_request :: "browser \<Rightarrow> request \<Rightarrow> event list \<times> response" where
  \<comment> \<open>lines 153-318: the callback of \<open>http.createServer\<close>\<close>
  "handle_request b req =
     (if req_method req = ''OPTIONS'' then ([], options_response)
      else if req_pathname req = ''/health'' then ([], health_response b)
      else if req_pathname req = ''/screenshot'' then screenshot_endpoint b req
      else if req_pathname req = ''/'' then ([], docs_response)
      else ([], not_found_response))"

definition routes_to_screenshot :: "request \<Rightarrow> bool" where
  "routes_to_screenshot req =
     (req_method req \<noteq> ''OPTIONS'' \<and> req_pathname req \<noteq> ''/health''
      \<and> req_pathname req = ''/screenshot'')"

text \<open>What a client reads off a response to a capture.\<close>

definition json_field :: "string \<Rightarrow> http_body \<Rightarrow> json option" where
  "json_field k bd = (case bd of JsonBody kvs \<Rightarrow> map_of kvs k | _ \<Rightarrow> None)"

definition succeeded :: "response \<Rightarrow> bool" where
  "succeeded r = (status r = 200)"

definition failed :: "response \<Rightarrow> bool" where
  "failed r = (status r = 500 \<and> json_field ''success'' (body r) = Some (JsonVal (JBool False)))"

definition payload_of :: "response \<Rightarrow> bytes option" where
  "payload_of r = (case body r of
       BinaryBody bs \<Rightarrow> Some bs
     | JsonBody kvs \<Rightarrow> (case map_of kvs ''data'' of Some (JsonBase64 bs) \<Rightarrow> Some bs | _ \<Rightarrow> None)
     | _ \<Rightarrow> None)"

definition page_dimension :: "string \<Rightarrow> string \<Rightarrow> response \<Rightarrow> int option" where
  \<comment> \<open>a rendered dimension: a JSON key of the body, or a header of a binary response\<close>
  "page_dimension key hdr r = (case body r of
       JsonBody kvs \<Rightarrow> (case map_of kvs key of Some (JsonNumber n) \<Rightarrow> Some n | _ \<Rightarrow> None)
     | BinaryBody _ \<Rightarrow> (case map_of (headers r) hdr of Some (HNumber n) \<Rightarrow> Some n | _ \<Rightarrow> None)
     | _ \<Rightarrow> None)"

definition pageWidth_of :: "response \<Rightarrow> int option" where
  "pageWidth_of = page_dimension ''pageWidth'' ''X-Page-Width''"

definition pageHeight_of :: "response \<Rightarrow> int option" where
  "pageHeight_of = page_dimension ''pageHeight'' ''X-Page-Height''"

definition error_of :: "response \<Rightarrow> string option" where
  "error_of r = (case json_field ''error'' (body r) of
       Some (JsonVal (JStr msg)) \<Rightarrow> Some msg
     | _ \<Rightarrow> None)"

section \<open>Requests in flight at the same time\<close>

text \<open>
  \<open>http.createServer\<close> calls the handler once for each request, and a handler gives way
  to the others at each \<open>await\<close>. All handlers share the one \<open>this.browser\<close>; nothing
  else is shared. For the page handles two points of a handler matter: the resolution of
  \<open>newPage\<close>, and the end of the handler, after \<open>page.close()\<close>. A task is a request
  with the behaviour of the browser towards it; a schedule names the task that advances
  next.
\<close>

datatype phase =
    Queued
  | PageOpen options "event list"
  | Responded "event list" response

record task =
  t_browser :: browser
  t_request :: request
  t_phase :: phase

definition task_step :: "task \<Rightarrow> task" where
  "task_step t =
     (let b = t_browser t; req = t_request t in
      case t_phase t of
        Queued \<Rightarrow>
          (if routes_to_screenshot req then
             (case io_bind (read_options req) (\<lambda>opts.
                   io_bind (capture_open b opts) (\<lambda>_. io_return opts)) of
                (tr, Ok opts) \<Rightarrow> t\<lparr>t_phase := PageOpen opts tr\<rparr>
              | (tr, Throws e) \<Rightarrow> t\<lparr>t_phase := Responded tr (error_response e)\<rparr>)
           else t\<lparr>t_phase := Responded (fst (handle_request b req)) (snd (handle_request b req))\<rparr>)
      | PageOpen opts tr \<Rightarrow>
          (case caught (io_bind (capture_page b opts) (\<lambda>result. respond opts result)) of
             (tr', resp) \<Rightarrow> t\<lparr>t_phase := Responded (tr @ tr') resp\<rparr>)
      | Responded tr resp \<Rightarrow> t)"

definition step :: "nat \<Rightarrow> task list \<Rightarrow> task list" where
  "step i s = (if i < length s then s[i := task_step (s ! i)] else s)"

definition run :: "nat list \<Rightarrow> task list \<Rightarrow> task list" where
  "run sched s = foldl (\<lambda>s' i. step i s') s sched"

definition queued :: "browser \<times> request \<Rightarrow> task" where
  \<comment> \<open>a request that has arrived, with the browser's behaviour towards it\<close>
  "queued x = \<lparr> t_browser = fst x, t_request = snd x, t_phase = Queued \<rparr>"

definition served :: "browser \<times> request \<Rightarrow> task" where
  \<comment> \<open>the same request, answered as the handler answers it when it runs alone\<close>
  "served x =
     \<lparr> t_browser = fst x, t_request = snd x,
       t_phase = Responded (fst (handle_request (fst x) (snd x)))
                           (snd (handle_request (fst x) (snd x))) \<rparr>"

definition submit :: "(browser \<times> request) list \<Rightarrow> task list" where
  "submit batch = map queued batch"

definition task_trace :: "task \<Rightarrow> event list" where
  \<comment> \<open>the browser calls made for a request so far\<close>
  "task_trace t = (case t_phase t of
       Queued \<Rightarrow> []
     | PageOpen opts tr \<Rightarrow> tr
     | Responded tr resp \<Rightarrow> tr)"

definition pages_held :: "task \<Rightarrow> int" where
  \<comment> \<open>the page handles a request holds: those its calls of \<open>newPage\<close> created (a call
      creates one when \<open>newPage\<close> resolves), less those it called \<open>page.close()\<close> on\<close>
  "pages_held t =
     (if newPage (t_browser t) = Ok () then int (count_list (task_trace t) NewPage) else 0)
       - int (count_list (task_trace t) ClosePage)"

definition open_pages :: "task list \<Rightarrow> int" where
  "open_pages s = sum_list (map pages_held s)"

definition answered :: "task \<Rightarrow> bool" where
  "answered t = (case t_phase t of Responded tr resp \<Rightarrow> True | _ \<Rightarrow> False)"

definition in_flight :: "task list \<Rightarrow> nat" where
  "in_flight s = length (filter (\<lambda>t. \<not> answered t) s)"

definition opens_page :: "browser \<Rightarrow> request \<Rightarrow> bool" where
  \<comment> \<open>a screenshot request that carries a url, to a browser that can create a page\<close>
  "opens_page b req =
     (routes_to_screenshot req \<and> newPage b = Ok ()
      \<and> (case read_options req of
            (tr, Ok opts) \<Rightarrow> \<not> falsy (targetUrl opts)
          | (tr, Throws e) \<Rightarrow> False))"

section \<open>The url a request must carry, in the words of the specification\<close>

text \<open>
  The specification asks for a syntactically valid absolute URL. An absolute URL starts
  with a scheme: a letter, then letters, digits, \<open>+\<close>, \<open>-\<close> or \<open>.\<close>, then a colon. Only
  this necessary condition is written down, to tell the strings that are certainly not
  absolute URLs.
\<close>

definition is_alpha :: "char \<Rightarrow> bool" where
  "is_alpha c = (let k = (of_char c :: nat) in (65 \<le> k \<and> k \<le> 90) \<or> (97 \<le> k \<and> k \<le> 122))"

definition is_scheme_char :: "char \<Rightarrow> bool" where
  "is_scheme_char c = (is_alpha c \<or> is_digit 10 c \<or> c \<in> set ''+-.'')"

definition has_url_scheme :: "string \<Rightarrow> bool" where
  "has_url_scheme s =
     (case s of
        [] \<Rightarrow> False
      | c # cs \<Rightarrow> is_alpha c \<and> has_prefix '':'' (dropWhile is_scheme_char cs))"

section \<open>Change detection and batch admission, from the specification\<close>

record artifact =
  art_outputKey :: string
  art_timestamp :: nat
  art_payload :: bytes

record change_record =
  cr_previous :: artifact
  cr_current :: artifact
  changed :: bool
  differencePercent :: rat

datatype change_error = OrderingError

definition payload_size :: "artifact \<Rightarrow> nat" where
  "payload_size a = length (art_payload a)"

definition default_threshold :: rat where
  "default_threshold = 5"

text \<open>
  Modelled from the spec: \<open>compareArtifacts\<close>, the Change Detector of section 4.3, whose
  code (the monitoring part of \<open>screenshot_service.py\<close>) is not among the sources. The
  percentage is kept exact, as a rational number.
\<close>

definition compareArtifactsWith :: "rat \<Rightarrow> artifact \<Rightarrow> artifact \<Rightarrow> change_error + change_record" where
  "compareArtifactsWith threshold previous current =
     (if art_timestamp current < art_timestamp previous then Inl OrderingError
      else
        (let dp = 100 * of_int \<bar>int (payload_size current) - int (payload_size previous)\<bar>
                    / of_nat (max (payload_size previous) 1)
         in Inr \<lparr> cr_previous = previous, cr_current = current,
                  changed = (threshold < dp), differencePercent = dp \<rparr>))"

definition compareArtifacts :: "artifact \<Rightarrow> artifact \<Rightarrow> change_error + change_record" where
  "compareArtifacts = compareArtifactsWith default_threshold"

datatype capture_format = PNG | JPEG | PDF

record viewport =
  vp_width :: nat
  vp_height :: nat
  vp_isMobile :: bool

record capture_request =
  cq_url :: string
  cq_viewport :: viewport
  cq_format :: capture_format
  cq_delayMs :: nat
  cq_timeoutMs :: nat
  cq_outputKey :: string

datatype capture_error = NavigationError | TimeoutError | CaptureError

datatype batch_error = ValidationError

datatype capture_status = SUCCEEDED | FAILED

record batch_result =
  br_request :: capture_request
  br_status :: capture_status
  br_payload :: "bytes option"
  br_pageWidth :: "nat option"
  br_pageHeight :: "nat option"
  br_error :: "capture_error option"

type_synonym capability = "capture_request \<Rightarrow> capture_error + (bytes \<times> nat \<times> nat)"

definition attempt :: "capability \<Rightarrow> capture_request \<Rightarrow> batch_result" where
  "attempt cap r = (case cap r of
       Inl e \<Rightarrow> \<lparr> br_request = r, br_status = FAILED, br_payload = None,
                  br_pageWidth = None, br_pageHeight = None, br_error = Some e \<rparr>
     | Inr (bs, w, h) \<Rightarrow> \<lparr> br_request = r, br_status = SUCCEEDED, br_payload = Some bs,
                  br_pageWidth = Some w, br_pageHeight = Some h, br_error = None \<rparr>)"

text \<open>
  Modelled from the spec: \<open>runBatch\<close>, the Batch Scheduler of section 4.1, which the
  sources do not contain. The first component of the result lists the Browser Capability
  calls that were made, the second is the rejection or the mapping from output key to
  result.
\<close>

definition runBatch ::
  "capability \<Rightarrow> capture_request list \<Rightarrow> int
     \<Rightarrow> capture_request list \<times> (batch_error + (string \<times> batch_result) list)" where
  "runBatch cap requests n =
     (if n < 1 \<or> \<not> distinct (map cq_outputKey requests) then ([], Inl ValidationError)
      else (requests, Inr (map (\<lambda>r. (cq_outputKey r, attempt cap r)) requests)))"

section \<open>Concrete browsers and requests\<close>

definition demo_browser :: browser where
  \<comment> \<open>a browser on which every operation succeeds\<close>
  "demo_browser =
     \<lparr> newPage = Ok (),
       setViewport = (\<lambda>w h m. Ok ()),
       goto = (\<lambda>u t. Ok ()),
       evaluateHideSticky = Ok (),
       evaluateDimensions =
         Ok \<lparr> dim_width = 1280, dim_height = 2400, dim_title = ''Example Domain'' \<rparr>,
       pdf = Ok [0x25, 0x50, 0x44, 0x46],
       screenshot = (\<lambda>ty q. Ok (case ty of Png \<Rightarrow> [0x89, 0x50, 0x4E, 0x47]
                                           | Jpeg \<Rightarrow> [0xFF, 0xD8, 0xFF])),
       closePage = Ok (),
       now = ''2025-01-22T12:00:00.000Z'' \<rparr>"

definition failing_browser :: "string \<Rightarrow> browser" where
  \<comment> \<open>a browser whose navigation fails with the given message\<close>
  "failing_browser msg = demo_browser\<lparr> goto := (\<lambda>u t. Throws msg) \<rparr>"

definition get_screenshot :: "options \<Rightarrow> request" where
  \<comment> \<open>\<open>GET /screenshot?...\<close>; a GET request has an empty body\<close>
  "get_screenshot q =
     \<lparr> req_method = ''GET'', req_pathname = ''/screenshot'', req_query = q,
       req_body = InvalidJson \<rparr>"

definition post_screenshot :: "options \<Rightarrow> request" where
  \<comment> \<open>\<open>POST /screenshot\<close> with a JSON object as body\<close>
  "post_screenshot q =
     \<lparr> req_method = ''POST'', req_pathname = ''/screenshot'', req_query = no_options,
       req_body = JsonObject q \<rparr>"

definition demo_options :: options where
  "demo_options = no_options\<lparr> url := JStr ''https://example.com'' \<rparr>"

definition gif_options :: options where
  "gif_options = demo_options\<lparr> format := JStr ''gif'', returnJson := JStr ''true'' \<rparr>"

definition slow_options :: options where
  \<comment> \<open>\<open>{"url": "https://example.com", "timeout": 1000, "delay": 5000}\<close>\<close>
  "slow_options = demo_options\<lparr> timeout := JNum 1000, delay := JNum 5000 \<rparr>"

definition unreachable_options :: options where
  "unreachable_options = no_options\<lparr> url := JStr ''http://unreachable.invalid'' \<rparr>"

definition demo_trace :: "event list" where
  "demo_trace =
     [NewPage, SetViewport (Num 1280) (Num 800) False,
      Goto (JStr ''https://example.com'') (Num 30000),
      EvaluateHideSticky, EvaluateDimensions, Screenshot Png None, ClosePage]"

definition slow_trace :: "event list" where
  "slow_trace =
     [NewPage, SetViewport (Num 1280) (Num 800) False,
      Goto (JStr ''https://example.com'') (Num 1000), Wait (Num 5000),
      EvaluateHideSticky, EvaluateDimensions, Screenshot Png None, ClosePage]"

definition demo_result :: capture_result where
  "demo_result =
     \<lparr> success = True, data = [0x89, 0x50, 0x4E, 0x47],
       metadata =
         \<lparr> md_url = JStr ''https://example.com'', md_format = JStr ''png'',
           md_pageWidth = 1280, md_pageHeight = 2400, md_title = ''Example Domain'',
           md_viewport = ''1280x800'', md_mobile = JBool False,
           md_timestamp = ''2025-01-22T12:00:00.000Z'', md_size = 4 \<rparr> \<rparr>"

definition demo_batch :: "(browser \<times> request) list" where
  "demo_batch =
     [(demo_browser, get_screenshot demo_options),
      (failing_browser ''net::ERR_NAME_NOT_RESOLVED at http://unreachable.invalid'',
       get_screenshot unreachable_options),
      (demo_browser, get_screenshot demo_options)]"

definition demo_pair :: "(browser \<times> request) list" where
  \<comment> \<open>two requests for the same page, in flight together\<close>
  "demo_pair =
     [(demo_browser, get_screenshot demo_options), (demo_browser, get_screenshot demo_options)]"

definition outcome_of :: "task \<Rightarrow> nat \<times> string option" where
  \<comment> \<open>the status and error of a request that was answered; \<open>(0, None)\<close> while it is not\<close>
  "outcome_of t = (case t_phase t of
       Responded tr r \<Rightarrow> (status r, error_of r)
     | _ \<Rightarrow> (0, None))"

definition demo_artifact :: artifact where
  "demo_artifact = \<lparr> art_outputKey = ''example_com_a1b2c3d4'', art_timestamp = 1,
                      art_payload = [0x89, 0x50, 0x4E, 0x47] \<rparr>"

definition grown_artifact :: artifact where
  "grown_artifact = \<lparr> art_outputKey = ''example_com_a1b2c3d4'', art_timestamp = 2,
                       art_payload = [0x89, 0x50, 0x4E, 0x47, 0x0D] \<rparr>"

definition demo_capture_request :: capture_request where
  "demo_capture_request =
     \<lparr> cq_url = ''https://example.com'',
       cq_viewport = \<lparr> vp_width = 1280, vp_height = 800, vp_isMobile = False \<rparr>,
       cq_format = PNG, cq_delayMs = 0, cq_timeoutMs = 30000,
       cq_outputKey = ''example_com_a1b2c3d4'' \<rparr>"

definition demo_capability :: capability where
  "demo_capability r = Inr ([0x89, 0x50, 0x4E, 0x47], 1280, 2400)"

section \<open>Sequencing and evaluation\<close>

lemma io_bind_Ok [simp]:
  "io_bind (t, Ok v) f = (case f v of (t', r) \<Rightarrow> (t @ t', r))"
  by (simp add: io_bind_def)

lemma io_bind_Throws [simp]: "io_bind (t, Throws e) f = (t, Throws e)"
  by (simp add: io_bind_def)

lemma io_bind_Ok_iff:
  "io_bind m f = (tr, Ok r) \<longleftrightarrow> (\<exists>t1 v t2. m = (t1, Ok v) \<and> f v = (t2, Ok r) \<and> tr = t1 @ t2)"
  by (cases m) (auto simp: io_bind_def split: outcome.splits prod.splits)

lemma io_finally_Ok_iff:
  "io_finally m fin = (tr, Ok r) \<longleftrightarrow> (\<exists>t1 t2. m = (t1, Ok r) \<and> fin = (t2, Ok ()) \<and> tr = t1 @ t2)"
  by (cases m; cases fin) (auto simp: io_finally_def split: outcome.splits)

lemma fst_io_bind_notin:
  assumes "ev \<notin> set (fst m)" and "\<And>v. ev \<notin> set (fst (f v))"
  shows "ev \<notin> set (fst (io_bind m f))"
proof (cases m)
  case (Pair t r)
  show ?thesis
  proof (cases r)
    case (Ok v)
    obtain t' r' where fv: "f v = (t', r')" by (cases "f v")
    from assms(2) [of v] fv have "ev \<notin> set t'" by simp
    with assms(1) Pair Ok fv show ?thesis by simp
  next
    case (Throws e)
    with assms(1) Pair show ?thesis by simp
  qed
qed

lemmas io_defs = call_def io_return_def io_throw_def io_finally_def

lemmas js_defs = falsy_def dflt_def js_gt_zero_def parseInt_def js_to_string_def show_int_def
  show_nat.simps digit_char_def parseInt_string_def has_prefix_def is_ws_def is_digit_def
  digit_of_def radix_value_def round_double_def

lemmas capture_defs = capture_def capture_open_def capture_page_def capture_try_def Let_def
  opt_format_def opt_width_def opt_height_def opt_mobile_def opt_hideSticky_def opt_delay_def
  opt_timeout_def

lemmas handler_defs = handle_request_def screenshot_endpoint_def read_options_def respond_def
  set_target_def
  caught_def content_type_for_def object_prototype_members_def

lemmas demo_defs = demo_browser_def failing_browser_def get_screenshot_def post_screenshot_def
  demo_options_def gif_options_def slow_options_def unreachable_options_def no_options_def
  demo_trace_def demo_result_def slow_trace_def

section \<open>Properties of \<open>capture\<close>\<close>

lemma capture_try_no_NewPage: "NewPage \<notin> set (fst (capture_try b opts))"
  unfolding capture_try_def Let_def
  by (intro fst_io_bind_notin) (simp_all add: call_def io_return_def)

lemma capture_try_no_ClosePage: "ClosePage \<notin> set (fst (capture_try b opts))"
  unfolding capture_try_def Let_def
  by (intro fst_io_bind_notin) (simp_all add: call_def io_return_def)

lemma capture_page_trace:
  "fst (capture_page b opts) = fst (capture_try b opts) @ [ClosePage]"
  by (simp add: capture_page_def io_finally_def call_def split: prod.splits outcome.splits)

lemma capture_opened:
  "\<not> falsy (targetUrl opts) \<Longrightarrow> newPage b = Ok () \<Longrightarrow>
     capture b opts = (NewPage # fst (capture_page b opts), snd (capture_page b opts))"
  by (simp add: capture_def capture_open_def call_def split: prod.splits)

lemma capture_without_page:
  "falsy (targetUrl opts) \<Longrightarrow> capture b opts = ([], Throws ''URL is required'')"
  "\<not> falsy (targetUrl opts) \<Longrightarrow> newPage b = Throws e \<Longrightarrow> capture b opts = ([NewPage], Throws e)"
  by (simp_all add: capture_def capture_open_def io_defs)

lemma capture_try_size:
  "capture_try b opts = (tr, Ok r) \<Longrightarrow> md_size (metadata r) = length (data r) \<and> success r"
  unfolding capture_try_def Let_def io_bind_Ok_iff
  by (auto simp: io_return_def)

lemma capture_try_split:
  "capture_try b opts =
     io_bind (call (SetViewport (parseInt (opt_width opts)) (parseInt (opt_height opts))
                      (opt_mobile opts = JStr ''true'' \<or> opt_mobile opts = JBool True))
                (setViewport b (parseInt (opt_width opts)) (parseInt (opt_height opts))
                      (opt_mobile opts = JStr ''true'' \<or> opt_mobile opts = JBool True))) (\<lambda>_.
     io_bind (call (Goto (targetUrl opts) (parseInt (opt_timeout opts)))
                (goto b (targetUrl opts) (parseInt (opt_timeout opts)))) (\<lambda>_.
     after_navigation b opts))"
  by (simp add: capture_try_def after_navigation_def Let_def)

lemma after_navigation_timeout:
  "after_navigation b (opts\<lparr>timeout := t\<rparr>) = after_navigation b opts"
  by (simp add: after_navigation_def opt_format_def opt_width_def opt_height_def opt_mobile_def
      opt_hideSticky_def opt_delay_def)

lemma io_bind_const:
  "fst (io_bind m (\<lambda>x. k)) = (case snd m of Ok v \<Rightarrow> fst m @ fst k | Throws e \<Rightarrow> fst m)"
  "snd (io_bind m (\<lambda>x. k)) = (case snd m of Ok v \<Rightarrow> snd k | Throws e \<Rightarrow> Throws e)"
  by (cases m; cases "snd m"; cases k; simp)+

lemma io_finally_parts:
  "fst (io_finally m fin) = fst m @ fst fin"
  "snd (io_finally m fin) = (case snd fin of Ok u \<Rightarrow> snd m | Throws e \<Rightarrow> Throws e)"
  by (cases m; cases fin; cases "snd fin"; simp add: io_finally_def)+

lemma timeout_only_reaches_goto:
  assumes "goto b (targetUrl opts) (parseInt (opt_timeout (opts\<lparr>timeout := t\<rparr>)))
           = goto b (targetUrl opts) (parseInt (opt_timeout opts))"
  shows "snd (capture b (opts\<lparr>timeout := t\<rparr>)) = snd (capture b opts)
       \<and> filter (\<lambda>ev. \<not> is_goto ev) (fst (capture b (opts\<lparr>timeout := t\<rparr>)))
         = filter (\<lambda>ev. \<not> is_goto ev) (fst (capture b opts))"
proof -
  have o: "opt_width (opts\<lparr>timeout := t\<rparr>) = opt_width opts"
    "opt_height (opts\<lparr>timeout := t\<rparr>) = opt_height opts"
    "opt_mobile (opts\<lparr>timeout := t\<rparr>) = opt_mobile opts"
    by (simp_all add: opt_width_def opt_height_def opt_mobile_def)
  have tr_eq: "snd (capture_try b (opts\<lparr>timeout := t\<rparr>)) = snd (capture_try b opts)
       \<and> filter (\<lambda>ev. \<not> is_goto ev) (fst (capture_try b (opts\<lparr>timeout := t\<rparr>)))
         = filter (\<lambda>ev. \<not> is_goto ev) (fst (capture_try b opts))"
    using assms
    by (simp add: capture_try_split after_navigation_timeout o io_bind_const call_def is_goto_def
        split: outcome.splits)
  then have page: "snd (capture_page b (opts\<lparr>timeout := t\<rparr>)) = snd (capture_page b opts)
       \<and> filter (\<lambda>ev. \<not> is_goto ev) (fst (capture_page b (opts\<lparr>timeout := t\<rparr>)))
         = filter (\<lambda>ev. \<not> is_goto ev) (fst (capture_page b opts))"
    by (simp add: capture_page_def io_finally_parts split: outcome.splits)
  have open_eq: "capture_open b (opts\<lparr>timeout := t\<rparr>) = capture_open b opts"
    by (simp add: capture_open_def)
  from page show ?thesis
    by (simp add: capture_def open_eq io_bind_const split: outcome.splits)
qed

lemma demo_capture: "capture demo_browser (set_target demo_options) = (demo_trace, Ok demo_result)"
  by (simp add: capture_defs set_target_def demo_defs io_defs js_defs)

lemma failing_capture:
  "capture (failing_browser msg) (set_target demo_options) =
     ([NewPage, SetViewport (Num 1280) (Num 800) False,
       Goto (JStr ''https://example.com'') (Num 30000), ClosePage], Throws msg)"
  by (simp add: capture_defs set_target_def demo_defs io_defs js_defs)

text \<open>
  C10. When a capture succeeds, the \<open>size\<close> field of the metadata it returns is the
  number of bytes of the \<open>data\<close> it returns.
\<close>

theorem capture_size_is_payload_length:
  "capture b opts = (tr, Ok r) \<Longrightarrow> md_size (metadata r) = length (data r)"
  unfolding capture_def capture_page_def io_bind_Ok_iff io_finally_Ok_iff
  by (auto dest: capture_try_size)

theorem capture_size_is_payload_length_witness:
  "capture demo_browser (set_target demo_options) = (demo_trace, Ok demo_result)
   \<and> md_size (metadata demo_result) = length (data demo_result)
   \<and> length (data demo_result) = 4"
  using capture_size_is_payload_length [OF demo_capture] demo_capture
  by (simp add: demo_result_def)

text \<open>
  C3. A capture that opens a page (the url is present and \<open>newPage\<close> resolves) calls
  \<open>page.close()\<close> exactly once, as its last browser operation, whatever the outcome of
  the operations in between and whether the capture returns or throws.
\<close>

theorem capture_closes_page:
  "\<not> falsy (targetUrl opts) \<and> newPage b = Ok () \<Longrightarrow>
     \<exists>mid. fst (capture b opts) = NewPage # mid @ [ClosePage]
           \<and> NewPage \<notin> set mid \<and> ClosePage \<notin> set mid"
proof -
  assume a: "\<not> falsy (targetUrl opts) \<and> newPage b = Ok ()"
  have "fst (capture b opts) = NewPage # fst (capture_try b opts) @ [ClosePage]"
    using a by (simp add: capture_opened capture_page_trace)
  then show ?thesis
    using capture_try_no_NewPage [of b opts] capture_try_no_ClosePage [of b opts] by blast
qed

theorem capture_closes_page_witness:
  "\<not> falsy (targetUrl (set_target demo_options))
   \<and> newPage (failing_browser ''net::ERR_CONNECTION_REFUSED'') = Ok ()
   \<and> snd (capture (failing_browser ''net::ERR_CONNECTION_REFUSED'') (set_target demo_options))
       = Throws ''net::ERR_CONNECTION_REFUSED''
   \<and> (\<exists>mid. fst (capture (failing_browser ''net::ERR_CONNECTION_REFUSED'') (set_target demo_options))
               = NewPage # mid @ [ClosePage]
             \<and> NewPage \<notin> set mid \<and> ClosePage \<notin> set mid)"
proof -
  have h: "\<not> falsy (targetUrl (set_target demo_options))
           \<and> newPage (failing_browser ''net::ERR_CONNECTION_REFUSED'') = Ok ()"
    by (simp add: set_target_def demo_defs falsy_def)
  show ?thesis
    using h capture_closes_page [OF h] by (simp add: failing_capture)
qed

text \<open>
  C9. A capture whose \<open>format\<close> is neither \<open>'pdf'\<close> nor \<open>'jpeg'\<close> (absent, or any other
  value) is not refused for its format: when the browser operations succeed it takes a
  full-page PNG screenshot and returns those bytes; neither \<open>page.pdf\<close> nor a JPEG
  screenshot is requested.
\<close>

theorem png_is_the_fallback_format:
  assumes "format opts \<noteq> JStr ''pdf''" and "format opts \<noteq> JStr ''jpeg''"
    and "\<not> falsy (targetUrl opts)"
    and "newPage b = Ok ()"
    and "setViewport b (parseInt (opt_width opts)) (parseInt (opt_height opts))
           (opt_mobile opts = JStr ''true'' \<or> opt_mobile opts = JBool True) = Ok ()"
    and "goto b (targetUrl opts) (parseInt (opt_timeout opts)) = Ok ()"
    and "evaluateHideSticky b = Ok ()"
    and "evaluateDimensions b = Ok dims"
    and "screenshot b Png None = Ok bs"
    and "closePage b = Ok ()"
  shows "\<exists>tr r. capture b opts = (tr, Ok r) \<and> success r \<and> data r = bs
            \<and> Screenshot Png None \<in> set tr \<and> Pdf \<notin> set tr
            \<and> (\<forall>q. Screenshot Jpeg q \<notin> set tr)"
proof -
  have f: "opt_format opts \<noteq> JStr ''pdf''" "opt_format opts \<noteq> JStr ''jpeg''"
    using assms(1,2) by (simp_all add: opt_format_def dflt_def)
  show ?thesis
    using assms(3-) f
    by (simp add: capture_def capture_open_def capture_page_def capture_try_def Let_def io_defs)
qed

theorem png_is_the_fallback_format_witness:
  "format (set_target gif_options) \<noteq> JStr ''pdf''
   \<and> format (set_target gif_options) \<noteq> JStr ''jpeg''
   \<and> \<not> falsy (targetUrl (set_target gif_options))
   \<and> screenshot demo_browser Png None = Ok [0x89, 0x50, 0x4E, 0x47]
   \<and> (\<exists>tr r. capture demo_browser (set_target gif_options) = (tr, Ok r) \<and> success r
          \<and> data r = [0x89, 0x50, 0x4E, 0x47]
          \<and> Screenshot Png None \<in> set tr \<and> Pdf \<notin> set tr
          \<and> (\<forall>q. Screenshot Jpeg q \<notin> set tr))"
proof -
  have h1: "format (set_target gif_options) \<noteq> JStr ''pdf''"
    and h2: "format (set_target gif_options) \<noteq> JStr ''jpeg''"
    and h3: "\<not> falsy (targetUrl (set_target gif_options))"
    by (simp_all add: set_target_def demo_defs falsy_def)
  have h4: "newPage demo_browser = Ok ()"
    and h5: "setViewport demo_browser (parseInt (opt_width (set_target gif_options)))
               (parseInt (opt_height (set_target gif_options)))
               (opt_mobile (set_target gif_options) = JStr ''true''
                \<or> opt_mobile (set_target gif_options) = JBool True) = Ok ()"
    and h6: "goto demo_browser (targetUrl (set_target gif_options))
               (parseInt (opt_timeout (set_target gif_options))) = Ok ()"
    and h7: "evaluateHideSticky demo_browser = Ok ()"
    and h8: "evaluateDimensions demo_browser =
               Ok \<lparr> dim_width = 1280, dim_height = 2400, dim_title = ''Example Domain'' \<rparr>"
    and h9: "screenshot demo_browser Png None = Ok [0x89, 0x50, 0x4E, 0x47]"
    and h10: "closePage demo_browser = Ok ()"
    by (simp_all add: demo_browser_def)
  from png_is_the_fallback_format [OF h1 h2 h3 h4 h5 h6 h7 h8 h9 h10] h1 h2 h3 h9
  show ?thesis by blast
qed

section \<open>Properties of the request handler\<close>

lemma handle_get_screenshot:
  "handle_request b (get_screenshot q) =
     caught (io_bind (capture b (set_target q)) (\<lambda>result. respond (set_target q) result))"
  by (simp add: handle_request_def screenshot_endpoint_def read_options_def get_screenshot_def
      io_return_def split: prod.splits)

lemma handle_post_screenshot:
  "handle_request b (post_screenshot q) =
     caught (io_bind (capture b (set_target q)) (\<lambda>result. respond (set_target q) result))"
  by (simp add: handle_request_def screenshot_endpoint_def read_options_def post_screenshot_def
      io_return_def split: prod.splits)

lemma routed_to_endpoint:
  "routes_to_screenshot req \<Longrightarrow> handle_request b req = screenshot_endpoint b req"
  by (simp add: routes_to_screenshot_def handle_request_def)

lemma read_options_trace: "fst (read_options req) = []"
  by (auto simp: read_options_def io_return_def io_throw_def split: post_body.splits)

lemma respond_trace: "fst (respond opts res) = []"
  by (auto simp: respond_def io_return_def io_throw_def split: option.splits)

lemma map_of_cors [simp]:
  "map_of cors_headers ''X-Page-Width'' = None"
  "map_of cors_headers ''X-Page-Height'' = None"
  by (simp_all add: cors_headers_def)

lemma error_response_observed:
  "failed (error_response e)" "error_of (error_response e) = Some e"
  "payload_of (error_response e) = None" "pageWidth_of (error_response e) = None"
  "pageHeight_of (error_response e) = None" "\<not> succeeded (error_response e)"
  by (simp_all add: error_response_def failed_def error_of_def payload_of_def pageWidth_of_def
      pageHeight_of_def page_dimension_def succeeded_def json_field_def)

lemma respond_observed:
  assumes "respond opts res = (t, Ok r)"
  shows "succeeded r" "\<not> failed r" "error_of r = None" "payload_of r = Some (data res)"
    "pageWidth_of r = Some (md_pageWidth (metadata res))"
    "pageHeight_of r = Some (md_pageHeight (metadata res))"
  using assms
  by (auto simp: respond_def io_return_def io_throw_def succeeded_def failed_def error_of_def
      payload_of_def pageWidth_of_def pageHeight_of_def page_dimension_def json_field_def
      metadata_json_def split: if_splits option.splits)

lemma screenshot_endpoint_cases:
  obtains (success) opts tr res where "read_options req = ([], Ok opts)"
      and "capture b opts = (tr, Ok res)"
      and "respond opts res = ([], Ok (snd (screenshot_endpoint b req)))"
      and "fst (screenshot_endpoint b req) = tr"
    | (failure) e where "snd (screenshot_endpoint b req) = error_response e"
proof -
  obtain t0 r0 where ro: "read_options req = (t0, r0)" by (cases "read_options req")
  have t0: "t0 = []"
    using ro read_options_trace [of req] by simp
  show ?thesis
  proof (cases r0)
    case (Throws e)
    with ro have "snd (screenshot_endpoint b req) = error_response e"
      by (simp add: screenshot_endpoint_def caught_def)
    then show ?thesis by (rule failure)
  next
    case (Ok opts)
    obtain t1 r1 where ca: "capture b opts = (t1, r1)" by (cases "capture b opts")
    show ?thesis
    proof (cases r1)
      case (Throws e)
      with ro Ok ca have "snd (screenshot_endpoint b req) = error_response e"
        by (simp add: screenshot_endpoint_def caught_def)
      then show ?thesis by (rule failure)
    next
      case ok1: (Ok res)
      obtain t2 r2 where rs: "respond opts res = (t2, r2)" by (cases "respond opts res")
      have t2: "t2 = []"
        using rs respond_trace [of opts res] by simp
      show ?thesis
      proof (cases r2)
        case (Throws e)
        with ro Ok ca ok1 rs have "snd (screenshot_endpoint b req) = error_response e"
          by (simp add: screenshot_endpoint_def caught_def)
        then show ?thesis by (rule failure)
      next
        case ok2: (Ok resp)
        with ro Ok ca ok1 rs t0 t2 have "screenshot_endpoint b req = (t1, resp)"
          by (simp add: screenshot_endpoint_def caught_def)
        with ro Ok ca ok1 rs t0 t2 ok2 show ?thesis
          by (intro success [of opts t1 res]) simp_all
      qed
    qed
  qed
qed

lemma slow_capture:
  "capture demo_browser (set_target slow_options) = (slow_trace, Ok demo_result)"
  by (simp add: capture_defs set_target_def demo_defs io_defs js_defs)

lemma respond_demo_binary:
  "returnJson opts = JUndefined \<Longrightarrow> format opts = JUndefined \<Longrightarrow>
     respond opts demo_result =
       ([], Ok \<lparr> status = 200,
                 headers = cors_headers @
                   [(''Content-Type'', HText ''image/png''),
                    (''Content-Length'', HNumber 4),
                    (''X-Page-Title'', HUriComponent ''Example Domain''),
                    (''X-Page-Width'', HNumber 1280),
                    (''X-Page-Height'', HNumber 2400)],
                 body = BinaryBody [0x89, 0x50, 0x4E, 0x47] \<rparr>)"
  by (simp add: respond_def content_type_for_def falsy_def js_to_string_def io_return_def
      demo_result_def)

text \<open>
  In a binary response the content type is looked up under the format name. A name
  other than \<open>png\<close>, \<open>jpeg\<close> or \<open>pdf\<close> (and not a member of \<open>Object.prototype\<close>) finds
  nothing, \<open>writeHead\<close> throws, and the request is answered with the 500 response, after
  the capture itself was made.
\<close>

lemma unknown_format_binary_response:
  assumes "capture b (set_target q) = (tr, Ok res)"
    and "returnJson q \<noteq> JStr ''true''" and "returnJson q \<noteq> JBool True"
    and "content_type_for (format q) = None"
  shows "handle_request b (get_screenshot q) = (tr, error_response undefined_header_message)"
  using assms
  by (simp add: handle_get_screenshot respond_def set_target_def io_throw_def caught_def)

lemma gif_binary_response:
  "\<exists>res. capture demo_browser (set_target (demo_options\<lparr> format := JStr ''gif'' \<rparr>)) = (demo_trace, Ok res)
     \<and> data res = [0x89, 0x50, 0x4E, 0x47]
     \<and> handle_request demo_browser (get_screenshot (demo_options\<lparr> format := JStr ''gif'' \<rparr>))
         = (demo_trace, error_response undefined_header_message)"
proof -
  let ?q = "demo_options\<lparr> format := JStr ''gif'' \<rparr>"
  have c: "capture demo_browser (set_target ?q) =
             (demo_trace, Ok (demo_result\<lparr> metadata := (metadata demo_result)\<lparr> md_format := JStr ''gif'' \<rparr> \<rparr>))"
    by (simp add: capture_defs set_target_def demo_defs io_defs js_defs)
  have n: "content_type_for (format ?q) = None"
    by (simp add: content_type_for_def object_prototype_members_def falsy_def js_to_string_def)
  have r: "returnJson ?q \<noteq> JStr ''true''" "returnJson ?q \<noteq> JBool True"
    by (simp_all add: demo_defs)
  from unknown_format_binary_response [OF c r n] c show ?thesis
    by (simp add: demo_result_def)
qed

text \<open>
  C4, as the specification states it: a url that is empty or is not a syntactically
  valid absolute URL is rejected before any browser work starts. The server only tests
  whether the url is falsy. For \<open>GET /screenshot?url=not a url\<close> a page is created and
  navigation is attempted; the failure reported is the browser's.
\<close>

theorem invalid_url_reaches_the_browser:
  "\<not> has_url_scheme ''not a url''
   \<and> handle_request
        (failing_browser ''Protocol error (Page.navigate): Cannot navigate to invalid URL'')
        (get_screenshot (no_options\<lparr> url := JStr ''not a url'' \<rparr>))
     = ([NewPage, SetViewport (Num 1280) (Num 800) False,
         Goto (JStr ''not a url'') (Num 30000), ClosePage],
        error_response ''Protocol error (Page.navigate): Cannot navigate to invalid URL'')"
proof -
  have "\<not> has_url_scheme ''not a url''"
    by (simp add: has_url_scheme_def is_alpha_def is_scheme_char_def js_defs)
  moreover have "capture
        (failing_browser ''Protocol error (Page.navigate): Cannot navigate to invalid URL'')
        (set_target (no_options\<lparr> url := JStr ''not a url'' \<rparr>))
     = ([NewPage, SetViewport (Num 1280) (Num 800) False,
         Goto (JStr ''not a url'') (Num 30000), ClosePage],
        Throws ''Protocol error (Page.navigate): Cannot navigate to invalid URL'')"
    by (simp add: capture_defs set_target_def demo_defs io_defs js_defs)
  ultimately show ?thesis
    by (simp add: handle_get_screenshot caught_def)
qed

text \<open>
  C4, amended. A screenshot request whose url is absent or falsy (\<open>undefined\<close>, \<open>null\<close>,
  \<open>false\<close>, \<open>0\<close> or the empty string) is refused with the error \<open>URL is required\<close>
  before any browser operation: no page is created and nothing is navigated.
\<close>

theorem missing_url_is_rejected_before_browser_work:
  assumes "routes_to_screenshot req" and "read_options req = ([], Ok opts)"
    and "falsy (targetUrl opts)"
  shows "capture b opts = ([], Throws ''URL is required'')
         \<and> handle_request b req = ([], error_response ''URL is required'')"
proof -
  have c: "capture b opts = ([], Throws ''URL is required'')"
    using assms(3) by (rule capture_without_page(1))
  have "handle_request b req = screenshot_endpoint b req"
    using assms(1) by (simp add: routes_to_screenshot_def handle_request_def)
  with c assms(2) show ?thesis
    by (simp add: screenshot_endpoint_def caught_def)
qed

theorem missing_url_is_rejected_before_browser_work_witness:
  "routes_to_screenshot (get_screenshot no_options)
   \<and> read_options (get_screenshot no_options) = ([], Ok (set_target no_options))
   \<and> falsy (targetUrl (set_target no_options))
   \<and> capture demo_browser (set_target no_options) = ([], Throws ''URL is required'')
   \<and> handle_request demo_browser (get_screenshot no_options)
        = ([], error_response ''URL is required'')"
proof -
  have h1: "routes_to_screenshot (get_screenshot no_options)"
    by (simp add: routes_to_screenshot_def get_screenshot_def)
  have h2: "read_options (get_screenshot no_options) = ([], Ok (set_target no_options))"
    by (simp add: read_options_def get_screenshot_def io_return_def)
  have h3: "falsy (targetUrl (set_target no_options))"
    by (simp add: set_target_def no_options_def falsy_def)
  from missing_url_is_rejected_before_browser_work [OF h1 h2 h3, of demo_browser] h1 h2 h3
  show ?thesis by simp
qed

text \<open>
  C5, as the specification states it: if any step of the attempt (navigation, waiting
  \<open>delayMs\<close>, capture) exceeds \<open>timeoutMs\<close>, the attempt fails with a timeout error.
  For the body \<open>{"url": "https://example.com", "timeout": 1000, "delay": 5000}\<close> the
  navigation is given 1000 ms, the wait that follows lasts 5000 ms, and the attempt
  succeeds.
\<close>

theorem delay_longer_than_timeout_succeeds:
  "fst (handle_request demo_browser (post_screenshot slow_options)) =
     [NewPage, SetViewport (Num 1280) (Num 800) False,
      Goto (JStr ''https://example.com'') (Num 1000), Wait (Num 5000),
      EvaluateHideSticky, EvaluateDimensions, Screenshot Png None, ClosePage]
   \<and> (1000 :: int) < 5000
   \<and> succeeded (snd (handle_request demo_browser (post_screenshot slow_options)))
   \<and> error_of (snd (handle_request demo_browser (post_screenshot slow_options))) = None"
proof -
  have r: "respond (set_target slow_options) demo_result =
       ([], Ok \<lparr> status = 200,
                 headers = cors_headers @
                   [(''Content-Type'', HText ''image/png''),
                    (''Content-Length'', HNumber 4),
                    (''X-Page-Title'', HUriComponent ''Example Domain''),
                    (''X-Page-Width'', HNumber 1280),
                    (''X-Page-Height'', HNumber 2400)],
                 body = BinaryBody [0x89, 0x50, 0x4E, 0x47] \<rparr>)"
    by (rule respond_demo_binary) (simp_all add: set_target_def demo_defs)
  show ?thesis
    by (simp add: handle_post_screenshot slow_capture r caught_def slow_trace_def succeeded_def
        error_of_def json_field_def)
qed

text \<open>
  C5, amended. \<open>timeoutMs\<close> (\<open>timeout\<close>, default 30000) bounds the navigation only: it is
  the timeout handed to \<open>page.goto\<close>. When the navigation raises an error, as the browser
  does when the load exceeds that limit, nothing more is attempted on the page,
  \<open>page.close()\<close> is called, and the request's result is the failed 500 response with the
  message of that error, or of the error of \<open>page.close()\<close> if closing fails as well. The
  timeout reaches no other step: captures that differ only in \<open>timeout\<close> and whose
  navigation ends alike have the same outcome and, \<open>page.goto\<close> apart, make the same
  browser calls.
\<close>

theorem timeout_bounds_navigation_only:
  "(routes_to_screenshot req \<and> read_options req = ([], Ok opts)
      \<and> \<not> falsy (targetUrl opts) \<and> newPage b = Ok ()
      \<and> setViewport b (parseInt (opt_width opts)) (parseInt (opt_height opts))
           (opt_mobile opts = JStr ''true'' \<or> opt_mobile opts = JBool True) = Ok ()
      \<and> goto b (targetUrl opts) (parseInt (opt_timeout opts)) = Throws e
    \<longrightarrow> fst (handle_request b req) =
          [NewPage,
           SetViewport (parseInt (opt_width opts)) (parseInt (opt_height opts))
             (opt_mobile opts = JStr ''true'' \<or> opt_mobile opts = JBool True),
           Goto (targetUrl opts) (parseInt (opt_timeout opts)),
           ClosePage]
        \<and> failed (snd (handle_request b req))
        \<and> error_of (snd (handle_request b req))
            = Some (case closePage b of Ok u \<Rightarrow> e | Throws e' \<Rightarrow> e')
        \<and> payload_of (snd (handle_request b req)) = None)
   \<and> (goto b (targetUrl opts) (parseInt (opt_timeout (opts\<lparr>timeout := t\<rparr>)))
         = goto b (targetUrl opts) (parseInt (opt_timeout opts))
    \<longrightarrow> snd (capture b (opts\<lparr>timeout := t\<rparr>)) = snd (capture b opts)
        \<and> filter (\<lambda>ev. \<not> is_goto ev) (fst (capture b (opts\<lparr>timeout := t\<rparr>)))
            = filter (\<lambda>ev. \<not> is_goto ev) (fst (capture b opts)))"
proof (intro conjI impI)
  assume a: "routes_to_screenshot req \<and> read_options req = ([], Ok opts)
      \<and> \<not> falsy (targetUrl opts) \<and> newPage b = Ok ()
      \<and> setViewport b (parseInt (opt_width opts)) (parseInt (opt_height opts))
           (opt_mobile opts = JStr ''true'' \<or> opt_mobile opts = JBool True) = Ok ()
      \<and> goto b (targetUrl opts) (parseInt (opt_timeout opts)) = Throws e"
  have c: "capture b opts =
          ([NewPage,
            SetViewport (parseInt (opt_width opts)) (parseInt (opt_height opts))
              (opt_mobile opts = JStr ''true'' \<or> opt_mobile opts = JBool True),
            Goto (targetUrl opts) (parseInt (opt_timeout opts)),
            ClosePage],
           Throws (case closePage b of Ok u \<Rightarrow> e | Throws e' \<Rightarrow> e'))"
    using a
    by (simp add: capture_def capture_open_def capture_page_def capture_try_def Let_def io_defs
        split: outcome.splits)
  have h: "handle_request b req =
          ([NewPage,
            SetViewport (parseInt (opt_width opts)) (parseInt (opt_height opts))
              (opt_mobile opts = JStr ''true'' \<or> opt_mobile opts = JBool True),
            Goto (targetUrl opts) (parseInt (opt_timeout opts)),
            ClosePage],
           error_response (case closePage b of Ok u \<Rightarrow> e | Throws e' \<Rightarrow> e'))"
    using a c by (simp add: routed_to_endpoint screenshot_endpoint_def caught_def)
  show "fst (handle_request b req) =
          [NewPage,
           SetViewport (parseInt (opt_width opts)) (parseInt (opt_height opts))
             (opt_mobile opts = JStr ''true'' \<or> opt_mobile opts = JBool True),
           Goto (targetUrl opts) (parseInt (opt_timeout opts)),
           ClosePage]"
    by (simp add: h)
  show "failed (snd (handle_request b req))"
    by (simp add: h error_response_observed)
  show "error_of (snd (handle_request b req))
            = Some (case closePage b of Ok u \<Rightarrow> e | Throws e' \<Rightarrow> e')"
    by (simp add: h error_response_observed)
  show "payload_of (snd (handle_request b req)) = None"
    by (simp add: h error_response_observed)
next
  assume "goto b (targetUrl opts) (parseInt (opt_timeout (opts\<lparr>timeout := t\<rparr>)))
         = goto b (targetUrl opts) (parseInt (opt_timeout opts))"
  then have r: "snd (capture b (opts\<lparr>timeout := t\<rparr>)) = snd (capture b opts)
        \<and> filter (\<lambda>ev. \<not> is_goto ev) (fst (capture b (opts\<lparr>timeout := t\<rparr>)))
            = filter (\<lambda>ev. \<not> is_goto ev) (fst (capture b opts))"
    by (rule timeout_only_reaches_goto)
  from r show "snd (capture b (opts\<lparr>timeout := t\<rparr>)) = snd (capture b opts)" by simp
  from r show "filter (\<lambda>ev. \<not> is_goto ev) (fst (capture b (opts\<lparr>timeout := t\<rparr>)))
            = filter (\<lambda>ev. \<not> is_goto ev) (fst (capture b opts))" by simp
qed

theorem timeout_bounds_navigation_only_witness:
  "routes_to_screenshot (post_screenshot slow_options)
   \<and> read_options (post_screenshot slow_options) = ([], Ok (set_target slow_options))
   \<and> parseInt (opt_timeout (set_target slow_options)) = Num 1000
   \<and> goto (failing_browser ''Navigation timeout of 1000 ms exceeded'')
        (targetUrl (set_target slow_options)) (Num 1000)
       = Throws ''Navigation timeout of 1000 ms exceeded''
   \<and> fst (handle_request (failing_browser ''Navigation timeout of 1000 ms exceeded'')
             (post_screenshot slow_options))
       = [NewPage, SetViewport (Num 1280) (Num 800) False,
          Goto (JStr ''https://example.com'') (Num 1000), ClosePage]
   \<and> failed (snd (handle_request (failing_browser ''Navigation timeout of 1000 ms exceeded'')
                     (post_screenshot slow_options)))
   \<and> error_of (snd (handle_request (failing_browser ''Navigation timeout of 1000 ms exceeded'')
                       (post_screenshot slow_options)))
       = Some ''Navigation timeout of 1000 ms exceeded''
   \<and> snd (capture demo_browser ((set_target slow_options)\<lparr>timeout := JNum 60000\<rparr>))
       = Ok demo_result"
proof -
  let ?b = "failing_browser ''Navigation timeout of 1000 ms exceeded''"
  let ?o = "set_target slow_options"
  have h1: "routes_to_screenshot (post_screenshot slow_options)"
    by (simp add: routes_to_screenshot_def post_screenshot_def)
  have h2: "read_options (post_screenshot slow_options) = ([], Ok ?o)"
    by (simp add: read_options_def post_screenshot_def io_return_def)
  have h3: "\<not> falsy (targetUrl ?o)"
    by (simp add: set_target_def demo_defs falsy_def)
  have h4: "newPage ?b = Ok ()" and h7: "closePage ?b = Ok ()"
    by (simp_all add: demo_defs)
  have h5: "setViewport ?b (parseInt (opt_width ?o)) (parseInt (opt_height ?o))
              (opt_mobile ?o = JStr ''true'' \<or> opt_mobile ?o = JBool True) = Ok ()"
    by (simp add: demo_defs)
  have h6: "goto ?b (targetUrl ?o) (parseInt (opt_timeout ?o))
              = Throws ''Navigation timeout of 1000 ms exceeded''"
    by (simp add: demo_defs)
  have p: "parseInt (opt_timeout ?o) = Num 1000" "parseInt (opt_width ?o) = Num 1280"
    "parseInt (opt_height ?o) = Num 800"
    "(opt_mobile ?o = JStr ''true'' \<or> opt_mobile ?o = JBool True) = False"
    "targetUrl ?o = JStr ''https://example.com''"
    by (simp_all add: opt_timeout_def opt_width_def opt_height_def opt_mobile_def set_target_def
        demo_defs js_defs)
  have g: "goto demo_browser (targetUrl ?o) (parseInt (opt_timeout (?o\<lparr>timeout := JNum 60000\<rparr>)))
             = goto demo_browser (targetUrl ?o) (parseInt (opt_timeout ?o))"
    by (simp add: demo_browser_def)
  from timeout_bounds_navigation_only
         [of "post_screenshot slow_options" ?o ?b "''Navigation timeout of 1000 ms exceeded''"
             "JNum 60000"]
       h1 h2 h3 h4 h5 h6
  have first: "fst (handle_request ?b (post_screenshot slow_options))
       = [NewPage, SetViewport (Num 1280) (Num 800) False,
          Goto (JStr ''https://example.com'') (Num 1000), ClosePage]
     \<and> failed (snd (handle_request ?b (post_screenshot slow_options)))
     \<and> error_of (snd (handle_request ?b (post_screenshot slow_options)))
         = Some ''Navigation timeout of 1000 ms exceeded''"
    by (simp add: p h7)
  from timeout_bounds_navigation_only
         [of "post_screenshot slow_options" ?o demo_browser "[]" "JNum 60000"] g
  have "snd (capture demo_browser (?o\<lparr>timeout := JNum 60000\<rparr>)) = snd (capture demo_browser ?o)"
    by blast
  then have second: "snd (capture demo_browser (?o\<lparr>timeout := JNum 60000\<rparr>)) = Ok demo_result"
    by (simp add: slow_capture)
  from first second h1 h2 h6 p show ?thesis by simp
qed

text \<open>
  C6. The response to a screenshot request carries the payload bytes and the rendered
  \<open>pageWidth\<close> and \<open>pageHeight\<close> (and no error) exactly when it succeeded, and carries an
  error (and neither payload nor dimensions) exactly when it failed; it is always one of
  the two.
\<close>

theorem result_carries_payload_iff_succeeded:
  "(let r = snd (screenshot_endpoint b req) in
      succeeded r = (payload_of r \<noteq> None \<and> pageWidth_of r \<noteq> None \<and> pageHeight_of r \<noteq> None
                      \<and> error_of r = None)
    \<and> failed r = (error_of r \<noteq> None \<and> payload_of r = None \<and> pageWidth_of r = None
                      \<and> pageHeight_of r = None)
    \<and> succeeded r = (\<not> failed r)
    \<and> (succeeded r \<longrightarrow>
         (\<exists>opts tr res. read_options req = ([], Ok opts) \<and> capture b opts = (tr, Ok res)
            \<and> payload_of r = Some (data res)
            \<and> pageWidth_of r = Some (md_pageWidth (metadata res))
            \<and> pageHeight_of r = Some (md_pageHeight (metadata res)))))"
proof (cases rule: screenshot_endpoint_cases [of req b])
  case (success opts tr res)
  note o = respond_observed [OF success(3)]
  have "\<exists>opts tr res. read_options req = ([], Ok opts) \<and> capture b opts = (tr, Ok res)
            \<and> payload_of (snd (screenshot_endpoint b req)) = Some (data res)
            \<and> pageWidth_of (snd (screenshot_endpoint b req)) = Some (md_pageWidth (metadata res))
            \<and> pageHeight_of (snd (screenshot_endpoint b req)) = Some (md_pageHeight (metadata res))"
    using success(1,2) o(4,5,6) by blast
  with o show ?thesis by (simp add: Let_def)
next
  case (failure e)
  then show ?thesis by (simp add: Let_def error_response_observed)
qed

theorem result_carries_payload_iff_succeeded_witness:
  "succeeded (snd (screenshot_endpoint demo_browser (get_screenshot demo_options)))
   \<and> payload_of (snd (screenshot_endpoint demo_browser (get_screenshot demo_options)))
       = Some [0x89, 0x50, 0x4E, 0x47]
   \<and> pageWidth_of (snd (screenshot_endpoint demo_browser (get_screenshot demo_options))) = Some 1280
   \<and> pageHeight_of (snd (screenshot_endpoint demo_browser (get_screenshot demo_options))) = Some 2400
   \<and> error_of (snd (screenshot_endpoint demo_browser (get_screenshot demo_options))) = None
   \<and> \<not> failed (snd (screenshot_endpoint demo_browser (get_screenshot demo_options)))"
proof -
  let ?r = "snd (screenshot_endpoint demo_browser (get_screenshot demo_options))"
  have e: "screenshot_endpoint demo_browser (get_screenshot demo_options)
             = handle_request demo_browser (get_screenshot demo_options)"
    by (simp add: handle_request_def get_screenshot_def)
  have r: "respond (set_target demo_options) demo_result =
       ([], Ok \<lparr> status = 200,
                 headers = cors_headers @
                   [(''Content-Type'', HText ''image/png''),
                    (''Content-Length'', HNumber 4),
                    (''X-Page-Title'', HUriComponent ''Example Domain''),
                    (''X-Page-Width'', HNumber 1280),
                    (''X-Page-Height'', HNumber 2400)],
                 body = BinaryBody [0x89, 0x50, 0x4E, 0x47] \<rparr>)"
    by (rule respond_demo_binary) (simp_all add: set_target_def demo_defs)
  have sr: "respond (set_target demo_options) demo_result = ([], Ok ?r)"
    by (simp add: e handle_get_screenshot demo_capture r caught_def)
  note o = respond_observed [OF sr]
  have s: "succeeded ?r"
    by (rule o(1))
  have p: "payload_of ?r = Some [0x89, 0x50, 0x4E, 0x47]" "pageWidth_of ?r = Some 1280"
    "pageHeight_of ?r = Some 2400"
    using o(4,5,6) by (simp_all add: demo_result_def)
  from result_carries_payload_iff_succeeded [of demo_browser "get_screenshot demo_options"] s p
  show ?thesis by (simp add: Let_def)
qed

section \<open>Properties of requests in flight\<close>

lemma length_step [simp]: "length (step i s) = length s"
  by (simp add: step_def)

lemma run_Nil [simp]: "run [] s = s"
  by (simp add: run_def)

lemma run_Cons [simp]: "run (i # sched) s = run sched (step i s)"
  by (simp add: run_def)

lemma length_run [simp]: "length (run sched s) = length s"
  by (induction sched arbitrary: s) simp_all

lemma step_nth:
  "i < length s \<Longrightarrow> step j s ! i = (if i = j then task_step (s ! i) else s ! i)"
  by (simp add: step_def)

lemma run_nth:
  "i < length s \<Longrightarrow> run sched s ! i = (task_step ^^ count_list sched i) (s ! i)"
proof (induction sched arbitrary: s)
  case Nil
  then show ?case by simp
next
  case (Cons j sched)
  have "run (j # sched) s ! i = (task_step ^^ count_list sched i) (step j s ! i)"
    using Cons by simp
  also have "\<dots> = (task_step ^^ count_list (j # sched) i) (s ! i)"
    using Cons.prems by (simp add: step_nth funpow_swap1)
  finally show ?case .
qed

lemma task_step_served [simp]: "task_step (served x) = served x"
  by (simp add: task_step_def Let_def served_def)

lemma funpow_served [simp]: "(task_step ^^ k) (served x) = served x"
  by (induction k) simp_all

lemma task_step_twice: "task_step (task_step (queued x)) = served x"
proof (cases "routes_to_screenshot (snd x)")
  case False
  then have "task_step (queued x) = served x"
    by (simp add: task_step_def Let_def queued_def served_def)
  then show ?thesis by simp
next
  case True
  then have h: "handle_request (fst x) (snd x) = screenshot_endpoint (fst x) (snd x)"
    by (rule routed_to_endpoint)
  obtain t0 r0 where ro: "read_options (snd x) = (t0, r0)" by (cases "read_options (snd x)")
  show ?thesis
  proof (cases r0)
    case (Throws e)
    with True ro h have "task_step (queued x) = served x"
      by (simp add: task_step_def Let_def queued_def served_def screenshot_endpoint_def caught_def)
    then show ?thesis by simp
  next
    case (Ok opts)
    obtain t1 r1 where co: "capture_open (fst x) opts = (t1, r1)"
      by (cases "capture_open (fst x) opts")
    show ?thesis
    proof (cases r1)
      case (Throws e)
      with True ro h Ok co have "task_step (queued x) = served x"
        by (simp add: task_step_def Let_def queued_def served_def screenshot_endpoint_def
            caught_def capture_def)
      then show ?thesis by simp
    next
      case ok1: (Ok u)
      have first: "task_step (queued x) = (queued x)\<lparr>t_phase := PageOpen opts (t0 @ t1)\<rparr>"
        using True ro Ok co ok1 by (simp add: task_step_def Let_def queued_def io_return_def)
      obtain t2 r2 where cp: "capture_page (fst x) opts = (t2, r2)"
        by (cases "capture_page (fst x) opts")
      show ?thesis
      proof (cases r2)
        case (Throws e)
        with first ro h Ok co ok1 cp show ?thesis
          by (simp add: task_step_def Let_def queued_def served_def screenshot_endpoint_def
              caught_def capture_def)
      next
        case ok2: (Ok res)
        obtain t3 r3 where rs: "respond opts res = (t3, r3)" by (cases "respond opts res")
        with first ro h Ok co ok1 cp ok2 show ?thesis
          by (cases r3) (simp_all add: task_step_def Let_def queued_def served_def
              screenshot_endpoint_def caught_def capture_def)
      qed
    qed
  qed
qed

lemma task_steps_enough: "2 \<le> k \<Longrightarrow> (task_step ^^ k) (queued x) = served x"
proof -
  assume "2 \<le> k"
  then obtain m where k: "k = m + 2" by (metis add.commute le_Suc_ex)
  have "(task_step ^^ k) (queued x) = (task_step ^^ m) ((task_step ^^ 2) (queued x))"
    unfolding k by (simp only: funpow_add o_apply)
  also have "(task_step ^^ 2) (queued x) = served x"
    by (simp add: numeral_2_eq_2 task_step_twice)
  finally show ?thesis by simp
qed

lemma run_submit_nth:
  "i < length batch \<Longrightarrow>
     run sched (submit batch) ! i = (task_step ^^ count_list sched i) (queued (batch ! i))"
  by (simp add: run_nth submit_def)

lemma run_all_served:
  assumes "\<forall>i < length batch. 2 \<le> count_list sched i"
  shows "run sched (submit batch) = map served batch"
proof (rule nth_equalityI)
  show "length (run sched (submit batch)) = length (map served batch)"
    by (simp add: submit_def)
next
  fix i assume "i < length (run sched (submit batch))"
  then have i: "i < length batch" by (simp add: submit_def)
  then have "run sched (submit batch) ! i = (task_step ^^ count_list sched i) (queued (batch ! i))"
    by (rule run_submit_nth)
  also have "\<dots> = served (batch ! i)"
    using assms i by (simp add: task_steps_enough)
  finally show "run sched (submit batch) ! i = map served batch ! i"
    using i by simp
qed

lemma count_list_upt: "i < n \<Longrightarrow> count_list [0..<n] i = 1"
proof (induction n)
  case 0
  then show ?case by simp
next
  case (Suc n)
  show ?case
  proof (cases "i = n")
    case True
    then show ?thesis by (simp add: count_list_append count_notin)
  next
    case False
    with Suc have "count_list [0..<n] i = 1" by simp
    with False show ?thesis by (simp add: count_list_append)
  qed
qed

lemma run_each_once: "run [0..<length batch] (submit batch) = map (\<lambda>x. task_step (queued x)) batch"
proof (rule nth_equalityI)
  show "length (run [0..<length batch] (submit batch)) = length (map (\<lambda>x. task_step (queued x)) batch)"
    by (simp add: submit_def)
next
  fix i assume "i < length (run [0..<length batch] (submit batch))"
  then have i: "i < length batch" by (simp add: submit_def)
  then show "run [0..<length batch] (submit batch) ! i = map (\<lambda>x. task_step (queued x)) batch ! i"
    by (simp add: run_submit_nth count_list_upt)
qed

lemma other_endpoint_trace:
  "\<not> routes_to_screenshot req \<Longrightarrow> fst (handle_request b req) = []"
  by (auto simp: routes_to_screenshot_def handle_request_def)

lemma endpoint_trace:
  "fst (screenshot_endpoint b req) =
     (case snd (read_options req) of Throws e \<Rightarrow> [] | Ok opts \<Rightarrow> fst (capture b opts))"
proof -
  obtain t0 r0 where ro: "read_options req = (t0, r0)" by (cases "read_options req")
  have t0: "t0 = []"
    using ro read_options_trace [of req] by simp
  show ?thesis
  proof (cases r0)
    case (Throws e)
    with ro t0 show ?thesis by (simp add: screenshot_endpoint_def caught_def)
  next
    case (Ok opts)
    obtain t1 r1 where ca: "capture b opts = (t1, r1)" by (cases "capture b opts")
    show ?thesis
    proof (cases r1)
      case (Throws e)
      with ro t0 Ok ca show ?thesis by (simp add: screenshot_endpoint_def caught_def)
    next
      case ok1: (Ok res)
      obtain t2 r2 where rs: "respond opts res = (t2, r2)" by (cases "respond opts res")
      have t2: "t2 = []"
        using rs respond_trace [of opts res] by simp
      from ro t0 Ok ca ok1 rs t2 show ?thesis
        by (cases r2) (simp_all add: screenshot_endpoint_def caught_def)
    qed
  qed
qed

lemma capture_page_counts:
  "count_list (fst (capture b opts)) NewPage = (if falsy (targetUrl opts) then 0 else 1)"
  "count_list (fst (capture b opts)) ClosePage =
     (if \<not> falsy (targetUrl opts) \<and> newPage b = Ok () then 1 else 0)"
proof -
  have "count_list (fst (capture b opts)) NewPage = (if falsy (targetUrl opts) then 0 else 1)
      \<and> count_list (fst (capture b opts)) ClosePage =
          (if \<not> falsy (targetUrl opts) \<and> newPage b = Ok () then 1 else 0)"
  proof (cases "falsy (targetUrl opts)")
    case True
    then show ?thesis by (simp add: capture_without_page(1))
  next
    case False
    show ?thesis
    proof (cases "newPage b")
      case (Ok u)
      then have "fst (capture b opts) = NewPage # fst (capture_try b opts) @ [ClosePage]"
        using False by (simp add: capture_opened capture_page_trace)
      with False Ok capture_try_no_NewPage [of b opts] capture_try_no_ClosePage [of b opts]
      show ?thesis by (simp add: count_list_append count_notin)
    next
      case (Throws e)
      with False show ?thesis by (simp add: capture_without_page(2))
    qed
  qed
  then show "count_list (fst (capture b opts)) NewPage = (if falsy (targetUrl opts) then 0 else 1)"
    and "count_list (fst (capture b opts)) ClosePage =
     (if \<not> falsy (targetUrl opts) \<and> newPage b = Ok () then 1 else 0)"
    by simp_all
qed

lemma served_released: "pages_held (served x) = 0" "answered (served x)"
proof -
  show "answered (served x)"
    by (simp add: answered_def served_def)
  have tr: "task_trace (served x) = fst (handle_request (fst x) (snd x))"
    "t_browser (served x) = fst x"
    by (simp_all add: task_trace_def served_def)
  show "pages_held (served x) = 0"
  proof (cases "routes_to_screenshot (snd x)")
    case False
    then show ?thesis
      by (simp add: pages_held_def tr other_endpoint_trace)
  next
    case True
    then show ?thesis
      by (cases "snd (read_options (snd x))")
         (simp_all add: pages_held_def tr routed_to_endpoint endpoint_trace capture_page_counts)
  qed
qed

lemma first_step_pages:
  "pages_held (task_step (queued x)) = (if opens_page (fst x) (snd x) then 1 else 0)"
  "answered (task_step (queued x)) = (\<not> opens_page (fst x) (snd x))"
proof -
  have "pages_held (task_step (queued x)) = (if opens_page (fst x) (snd x) then 1 else 0)
      \<and> answered (task_step (queued x)) = (\<not> opens_page (fst x) (snd x))"
  proof (cases "routes_to_screenshot (snd x)")
    case False
    then have "task_step (queued x) = served x"
      by (simp add: task_step_def Let_def queued_def served_def)
    with False show ?thesis
      by (simp add: served_released opens_page_def)
  next
    case True
    obtain t0 r0 where ro: "read_options (snd x) = (t0, r0)" by (cases "read_options (snd x)")
    have t0: "t0 = []"
      using ro read_options_trace [of "snd x"] by simp
    show ?thesis
    proof (cases r0)
      case (Throws e)
      with True ro t0 show ?thesis
        by (simp add: task_step_def Let_def queued_def pages_held_def task_trace_def answered_def
            opens_page_def)
    next
      case (Ok opts)
      show ?thesis
      proof (cases "falsy (targetUrl opts)")
        case f: True
        with True ro t0 Ok show ?thesis
          by (simp add: task_step_def Let_def queued_def pages_held_def task_trace_def
              answered_def opens_page_def capture_open_def io_defs)
      next
        case f: False
        with True ro t0 Ok show ?thesis
          by (cases "newPage (fst x)")
             (simp_all add: task_step_def Let_def queued_def pages_held_def task_trace_def
                answered_def opens_page_def capture_open_def io_defs)
      qed
    qed
  qed
  then show "pages_held (task_step (queued x)) = (if opens_page (fst x) (snd x) then 1 else 0)"
    and "answered (task_step (queued x)) = (\<not> opens_page (fst x) (snd x))"
    by simp_all
qed

lemma queued_pages: "pages_held (queued x) = 0"
  by (simp add: pages_held_def task_trace_def queued_def)

lemma pages_of_any_step:
  "0 \<le> pages_held ((task_step ^^ k) (queued x))
   \<and> pages_held ((task_step ^^ k) (queued x)) \<le> (if answered ((task_step ^^ k) (queued x)) then 0 else 1)"
proof -
  consider "k = 0" | "k = 1" | "2 \<le> k" by linarith
  then show ?thesis
  proof cases
    case 1
    then show ?thesis by (simp add: queued_pages)
  next
    case 2
    then show ?thesis by (simp add: first_step_pages)
  next
    case 3
    then show ?thesis by (simp add: task_steps_enough served_released)
  qed
qed

lemma reachable_task:
  assumes "t \<in> set (run sched (submit batch))"
  obtains k x where "t = (task_step ^^ k) (queued x)"
proof -
  from assms obtain i where i: "i < length (run sched (submit batch))"
    and t: "t = run sched (submit batch) ! i"
    by (auto simp: in_set_conv_nth)
  from i have "i < length batch" by (simp add: submit_def)
  with t have "t = (task_step ^^ count_list sched i) (queued (batch ! i))"
    by (simp add: run_submit_nth)
  then show ?thesis by (rule that)
qed

lemma sum_list_indicator:
  "sum_list (map (\<lambda>t. if P t then (0 :: int) else 1) xs) = int (length (filter (\<lambda>t. \<not> P t) xs))"
  by (induction xs) simp_all

lemma sum_list_all_one:
  "\<forall>x \<in> set xs. f x = (1 :: int) \<Longrightarrow> sum_list (map f xs) = int (length xs)"
  by (induction xs) simp_all

lemma no_page_left_open:
  "\<forall>i < length batch. 2 \<le> count_list sched i \<Longrightarrow> open_pages (run sched (submit batch)) = 0"
proof -
  assume "\<forall>i < length batch. 2 \<le> count_list sched i"
  then have "run sched (submit batch) = map served batch"
    by (rule run_all_served)
  then show ?thesis
    by (simp add: open_pages_def o_def served_released)
qed

lemma demo_task_opens:
  "task_step (queued (demo_browser, get_screenshot demo_options)) =
     (queued (demo_browser, get_screenshot demo_options))
       \<lparr>t_phase := PageOpen (set_target demo_options) [NewPage]\<rparr>"
  by (simp add: task_step_def Let_def queued_def routes_to_screenshot_def read_options_def
      capture_open_def set_target_def falsy_def demo_defs io_defs)

lemma demo_opens_page: "opens_page demo_browser (get_screenshot demo_options)"
  by (simp add: opens_page_def routes_to_screenshot_def read_options_def set_target_def falsy_def
      demo_defs io_defs)

lemma demo_task_holds:
  "pages_held (task_step (queued (demo_browser, get_screenshot demo_options))) = 1"
  by (simp add: first_step_pages demo_opens_page)

lemma unreachable_capture:
  "capture (failing_browser msg) (set_target unreachable_options) =
     ([NewPage, SetViewport (Num 1280) (Num 800) False,
       Goto (JStr ''http://unreachable.invalid'') (Num 30000), ClosePage], Throws msg)"
  by (simp add: capture_defs set_target_def demo_defs io_defs js_defs)

lemma demo_served:
  "outcome_of (served (demo_browser, get_screenshot demo_options)) = (200, None)"
proof -
  have "respond (set_target demo_options) demo_result =
       ([], Ok \<lparr> status = 200,
                 headers = cors_headers @
                   [(''Content-Type'', HText ''image/png''),
                    (''Content-Length'', HNumber 4),
                    (''X-Page-Title'', HUriComponent ''Example Domain''),
                    (''X-Page-Width'', HNumber 1280),
                    (''X-Page-Height'', HNumber 2400)],
                 body = BinaryBody [0x89, 0x50, 0x4E, 0x47] \<rparr>)"
    by (rule respond_demo_binary) (simp_all add: set_target_def demo_defs)
  then show ?thesis
    by (simp add: outcome_of_def served_def handle_get_screenshot demo_capture caught_def
        error_of_def json_field_def)
qed

lemma unreachable_served:
  "outcome_of (served (failing_browser msg, get_screenshot unreachable_options)) = (500, Some msg)"
  by (simp add: outcome_of_def served_def handle_get_screenshot unreachable_capture caught_def
      error_response_observed) (simp add: error_response_def)

text \<open>
  C1, as the specification states it: with a concurrency limit \<open>C \<ge> 1\<close>, never more than
  \<open>C\<close> page handles are checked out at once. The server takes no such limit. With two
  requests in flight, each advanced to the resolution of its \<open>newPage\<close>, two pages are
  open: more than a limit of one.
\<close>

theorem two_pages_open_at_once:
  "open_pages (run [0, 1] (submit demo_pair)) = 2 \<and> \<not> (2 :: int) \<le> 1"
  by (simp add: demo_pair_def submit_def step_def open_pages_def demo_task_holds)

text \<open>
  C1, amended. The server enforces no concurrency limit. Under every interleaving of the
  handlers, a request holds no page handle before its \<open>newPage\<close> resolves, at most one
  from then on, and none once it is answered: whatever the browser did in between, the
  page was closed. So at every instant the number of open page handles is at most the
  number of requests in flight, which is at most the number of requests received. That
  bound is reached: when \<open>n\<close> screenshot requests that carry a url are in flight and
  \<open>newPage\<close> has resolved for each, \<open>n\<close> page handles are open at once.
\<close>

theorem open_pages_limited_only_by_requests:
  "(\<forall>t \<in> set (run sched (submit batch)).
       0 \<le> pages_held t \<and> pages_held t \<le> 1 \<and> (answered t \<longrightarrow> pages_held t = 0))
   \<and> open_pages (run sched (submit batch)) \<le> int (in_flight (run sched (submit batch)))
   \<and> in_flight (run sched (submit batch)) \<le> length batch
   \<and> ((\<forall>x \<in> set batch. opens_page (fst x) (snd x))
        \<longrightarrow> open_pages (run [0..<length batch] (submit batch)) = int (length batch))"
proof (intro conjI ballI impI)
  fix t assume t: "t \<in> set (run sched (submit batch))"
  then obtain k x where kx: "t = (task_step ^^ k) (queued x)"
    by (rule reachable_task)
  from pages_of_any_step [of k x] kx
  show "0 \<le> pages_held t" and "pages_held t \<le> 1"
    by (simp_all split: if_splits)
  assume "answered t"
  with pages_of_any_step [of k x] kx show "pages_held t = 0"
    by simp
next
  have "sum_list (map pages_held (run sched (submit batch)))
          \<le> sum_list (map (\<lambda>t. if answered t then 0 else 1) (run sched (submit batch)))"
  proof (rule sum_list_mono)
    fix t assume "t \<in> set (run sched (submit batch))"
    then obtain k x where "t = (task_step ^^ k) (queued x)"
      by (rule reachable_task)
    with pages_of_any_step [of k x] show "pages_held t \<le> (if answered t then 0 else 1)"
      by simp
  qed
  then show "open_pages (run sched (submit batch)) \<le> int (in_flight (run sched (submit batch)))"
    by (simp add: open_pages_def in_flight_def sum_list_indicator)
next
  have "in_flight (run sched (submit batch)) \<le> length (run sched (submit batch))"
    unfolding in_flight_def by (rule length_filter_le)
  then show "in_flight (run sched (submit batch)) \<le> length batch"
    by (simp add: submit_def)
next
  assume "\<forall>x \<in> set batch. opens_page (fst x) (snd x)"
  then have "\<forall>x \<in> set batch. pages_held (task_step (queued x)) = 1"
    by (simp add: first_step_pages)
  then have "sum_list (map (\<lambda>x. pages_held (task_step (queued x))) batch) = int (length batch)"
    by (rule sum_list_all_one)
  then show "open_pages (run [0..<length batch] (submit batch)) = int (length batch)"
    by (simp add: open_pages_def run_each_once o_def)
qed

theorem open_pages_limited_only_by_requests_witness:
  "opens_page demo_browser (get_screenshot demo_options)
   \<and> length demo_pair = 2
   \<and> open_pages (run [0..<length demo_pair] (submit demo_pair)) = 2
   \<and> open_pages (run [0, 1, 1, 0] (submit demo_pair)) \<le> int (in_flight (run [0, 1, 1, 0] (submit demo_pair)))
   \<and> in_flight (run [0, 1, 1, 0] (submit demo_pair)) \<le> 2"
proof -
  have p: "opens_page demo_browser (get_screenshot demo_options)"
    by (rule demo_opens_page)
  then have h: "\<forall>x \<in> set demo_pair. opens_page (fst x) (snd x)"
    by (simp add: demo_pair_def)
  have l: "length demo_pair = 2"
    by (simp add: demo_pair_def)
  from open_pages_limited_only_by_requests [of "[0..<length demo_pair]" demo_pair] h l
  have a: "open_pages (run [0..<length demo_pair] (submit demo_pair)) = 2"
    by simp
  from open_pages_limited_only_by_requests [of "[0, 1, 1, 0]" demo_pair] l
  have b: "open_pages (run [0, 1, 1, 0] (submit demo_pair)) \<le> int (in_flight (run [0, 1, 1, 0] (submit demo_pair)))
     \<and> in_flight (run [0, 1, 1, 0] (submit demo_pair)) \<le> 2"
    by simp
  from p l a b show ?thesis by simp
qed

lemma outcome_of_served:
  "t_phase t = Responded tr r \<Longrightarrow> handle_request (fst x) (snd x) = (tr, r) \<Longrightarrow>
     outcome_of t = outcome_of (served x)"
  by (simp add: outcome_of_def served_def)

lemma endpoint_results:
  "read_options req = (t0, Throws e) \<Longrightarrow> snd (screenshot_endpoint b req) = error_response e"
  "read_options req = ([], Ok opts) \<Longrightarrow> capture b opts = (tr, Throws e) \<Longrightarrow>
     snd (screenshot_endpoint b req) = error_response e"
  "read_options req = ([], Ok opts) \<Longrightarrow> capture b opts = (tr, Ok res) \<Longrightarrow>
     respond opts res = ([], Ok resp) \<Longrightarrow> snd (screenshot_endpoint b req) = resp"
  by (simp_all add: screenshot_endpoint_def caught_def)

lemma endpoint_succeeds_or_fails:
  "succeeded (snd (screenshot_endpoint b req)) = (\<not> failed (snd (screenshot_endpoint b req)))"
proof (cases rule: screenshot_endpoint_cases [of req b])
  case (success opts tr res)
  from respond_observed(1,2) [OF success(3)] show ?thesis by simp
next
  case (failure e)
  then show ?thesis by (simp add: error_response_observed)
qed

text \<open>
  C2. Requests in flight together do not affect one another. Under every interleaving
  of the handlers there is one task for each request, and as soon as the handler of a
  request has run to its end, whatever the other requests did and however far they
  are, the request has exactly one result: the one the handler gives it when it runs
  alone. For a screenshot request that result records the attempt's own failure: when
  reading the options fails, or the capture throws an error, the result is the failed
  500 response carrying that error's message and no payload; when the capture returns
  and the response can be written, it is the successful response carrying the capture's
  bytes. A result is either successful or failed, never both.
\<close>

theorem every_request_gets_its_own_result:
  "length (run sched (submit batch)) = length batch
   \<and> (\<forall>i < length batch. 2 \<le> count_list sched i \<longrightarrow>
        (\<exists>tr r. t_phase (run sched (submit batch) ! i) = Responded tr r
           \<and> handle_request (fst (batch ! i)) (snd (batch ! i)) = (tr, r)
           \<and> (routes_to_screenshot (snd (batch ! i)) \<longrightarrow>
                (\<forall>t0 e. read_options (snd (batch ! i)) = (t0, Throws e)
                    \<longrightarrow> failed r \<and> error_of r = Some e \<and> payload_of r = None)
              \<and> (\<forall>opts tr' e.
                    read_options (snd (batch ! i)) = ([], Ok opts)
                    \<and> capture (fst (batch ! i)) opts = (tr', Throws e)
                    \<longrightarrow> failed r \<and> error_of r = Some e \<and> payload_of r = None)
              \<and> (\<forall>opts tr' res resp.
                    read_options (snd (batch ! i)) = ([], Ok opts)
                    \<and> capture (fst (batch ! i)) opts = (tr', Ok res)
                    \<and> respond opts res = ([], Ok resp)
                    \<longrightarrow> r = resp \<and> succeeded r \<and> payload_of r = Some (data res))
              \<and> succeeded r = (\<not> failed r))))"
proof (intro conjI allI impI)
  show "length (run sched (submit batch)) = length batch"
    by (simp add: submit_def)
next
  fix i assume i: "i < length batch" and two: "2 \<le> count_list sched i"
  let ?b = "fst (batch ! i)" and ?req = "snd (batch ! i)"
  let ?tr = "fst (handle_request ?b ?req)" and ?r = "snd (handle_request ?b ?req)"
  have "run sched (submit batch) ! i = served (batch ! i)"
    using i two by (simp add: run_submit_nth task_steps_enough)
  then have ph: "t_phase (run sched (submit batch) ! i) = Responded ?tr ?r"
    by (simp add: served_def)
  have rest: "routes_to_screenshot ?req \<longrightarrow>
                (\<forall>t0 e. read_options ?req = (t0, Throws e)
                    \<longrightarrow> failed ?r \<and> error_of ?r = Some e \<and> payload_of ?r = None)
              \<and> (\<forall>opts tr' e.
                    read_options ?req = ([], Ok opts) \<and> capture ?b opts = (tr', Throws e)
                    \<longrightarrow> failed ?r \<and> error_of ?r = Some e \<and> payload_of ?r = None)
              \<and> (\<forall>opts tr' res resp.
                    read_options ?req = ([], Ok opts) \<and> capture ?b opts = (tr', Ok res)
                    \<and> respond opts res = ([], Ok resp)
                    \<longrightarrow> ?r = resp \<and> succeeded ?r \<and> payload_of ?r = Some (data res))
              \<and> succeeded ?r = (\<not> failed ?r)"
  proof (intro impI conjI allI)
    assume r: "routes_to_screenshot ?req"
    then have e: "handle_request ?b ?req = screenshot_endpoint ?b ?req"
      by (rule routed_to_endpoint)
    show "succeeded ?r = (\<not> failed ?r)"
      by (simp add: e endpoint_succeeds_or_fails)
    {
      fix t0 e' assume "read_options ?req = (t0, Throws e')"
      then have "?r = error_response e'"
        by (simp add: e endpoint_results(1))
      then show "failed ?r" and "error_of ?r = Some e'" and "payload_of ?r = None"
        by (simp_all add: error_response_observed)
    }
    {
      fix opts tr' e'
      assume "read_options ?req = ([], Ok opts) \<and> capture ?b opts = (tr', Throws e')"
      then have "?r = error_response e'"
        by (simp add: e endpoint_results(2))
      then show "failed ?r" and "error_of ?r = Some e'" and "payload_of ?r = None"
        by (simp_all add: error_response_observed)
    }
    {
      fix opts tr' res resp
      assume a: "read_options ?req = ([], Ok opts) \<and> capture ?b opts = (tr', Ok res)
                    \<and> respond opts res = ([], Ok resp)"
      then show eq: "?r = resp"
        by (simp add: e endpoint_results(3))
      from a have "respond opts res = ([], Ok resp)" by simp
      from respond_observed(1,4) [OF this] eq
      show "succeeded ?r" and "payload_of ?r = Some (data res)"
        by simp_all
    }
  qed
  have hr: "handle_request ?b ?req = (?tr, ?r)"
    by simp
  from ph hr rest
  show "\<exists>tr r. t_phase (run sched (submit batch) ! i) = Responded tr r
           \<and> handle_request (fst (batch ! i)) (snd (batch ! i)) = (tr, r)
           \<and> (routes_to_screenshot (snd (batch ! i)) \<longrightarrow>
                (\<forall>t0 e. read_options (snd (batch ! i)) = (t0, Throws e)
                    \<longrightarrow> failed r \<and> error_of r = Some e \<and> payload_of r = None)
              \<and> (\<forall>opts tr' e.
                    read_options (snd (batch ! i)) = ([], Ok opts)
                    \<and> capture (fst (batch ! i)) opts = (tr', Throws e)
                    \<longrightarrow> failed r \<and> error_of r = Some e \<and> payload_of r = None)
              \<and> (\<forall>opts tr' res resp.
                    read_options (snd (batch ! i)) = ([], Ok opts)
                    \<and> capture (fst (batch ! i)) opts = (tr', Ok res)
                    \<and> respond opts res = ([], Ok resp)
                    \<longrightarrow> r = resp \<and> succeeded r \<and> payload_of r = Some (data res))
              \<and> succeeded r = (\<not> failed r))"
    by blast
qed

theorem every_request_gets_its_own_result_witness:
  "length demo_batch = 3
   \<and> 2 \<le> count_list [0, 1, 2, 2, 1, 0] (0 :: nat)
   \<and> 2 \<le> count_list [0, 1, 2, 2, 1, 0] (1 :: nat)
   \<and> 2 \<le> count_list [0, 1, 2, 2, 1, 0] (2 :: nat)
   \<and> capture (failing_browser ''net::ERR_NAME_NOT_RESOLVED at http://unreachable.invalid'')
        (set_target unreachable_options)
       = ([NewPage, SetViewport (Num 1280) (Num 800) False,
           Goto (JStr ''http://unreachable.invalid'') (Num 30000), ClosePage],
          Throws ''net::ERR_NAME_NOT_RESOLVED at http://unreachable.invalid'')
   \<and> outcome_of (run [0, 1, 2, 2, 1, 0] (submit demo_batch) ! 0) = (200, None)
   \<and> outcome_of (run [0, 1, 2, 2, 1, 0] (submit demo_batch) ! 1)
       = (500, Some ''net::ERR_NAME_NOT_RESOLVED at http://unreachable.invalid'')
   \<and> outcome_of (run [0, 1, 2, 2, 1, 0] (submit demo_batch) ! 2) = (200, None)"
proof -
  let ?s = "run [0, 1, 2, 2, 1, 0] (submit demo_batch)"
  have l: "length demo_batch = 3"
    by (simp add: demo_batch_def)
  have c: "2 \<le> count_list [0, 1, 2, 2, 1, 0] (0 :: nat)"
    "2 \<le> count_list [0, 1, 2, 2, 1, 0] (1 :: nat)"
    "2 \<le> count_list [0, 1, 2, 2, 1, 0] (2 :: nat)"
    by simp_all
  have n: "demo_batch ! 0 = (demo_browser, get_screenshot demo_options)"
    "demo_batch ! 1 = (failing_browser ''net::ERR_NAME_NOT_RESOLVED at http://unreachable.invalid'',
                       get_screenshot unreachable_options)"
    "demo_batch ! 2 = (demo_browser, get_screenshot demo_options)"
    by (simp_all add: demo_batch_def)
  note t = every_request_gets_its_own_result [of "[0, 1, 2, 2, 1, 0]" demo_batch]
  have i: "(0 :: nat) < 3" "(1 :: nat) < 3" "(2 :: nat) < 3"
    by simp_all
  have s: "outcome_of (served (demo_batch ! 0)) = (200, None)"
    "outcome_of (served (demo_batch ! 1))
       = (500, Some ''net::ERR_NAME_NOT_RESOLVED at http://unreachable.invalid'')"
    "outcome_of (served (demo_batch ! 2)) = (200, None)"
    by (simp_all only: n demo_served unreachable_served)
  from t l c(1) i(1) obtain tr0 r0 where "t_phase (?s ! 0) = Responded tr0 r0"
    and "handle_request (fst (demo_batch ! 0)) (snd (demo_batch ! 0)) = (tr0, r0)"
    by metis
  then have "outcome_of (?s ! 0) = outcome_of (served (demo_batch ! 0))"
    by (rule outcome_of_served)
  with s(1) have o0: "outcome_of (?s ! 0) = (200, None)"
    by (rule back_subst [where P = "\<lambda>v. outcome_of (?s ! 0) = v", rotated])
  from t l c(2) i(2) obtain tr1 r1 where "t_phase (?s ! 1) = Responded tr1 r1"
    and "handle_request (fst (demo_batch ! 1)) (snd (demo_batch ! 1)) = (tr1, r1)"
    by metis
  then have "outcome_of (?s ! 1) = outcome_of (served (demo_batch ! 1))"
    by (rule outcome_of_served)
  with s(2) have o1: "outcome_of (?s ! 1)
       = (500, Some ''net::ERR_NAME_NOT_RESOLVED at http://unreachable.invalid'')"
    by (rule back_subst [where P = "\<lambda>v. outcome_of (?s ! 1) = v", rotated])
  from t l c(3) i(3) obtain tr2 r2 where "t_phase (?s ! 2) = Responded tr2 r2"
    and "handle_request (fst (demo_batch ! 2)) (snd (demo_batch ! 2)) = (tr2, r2)"
    by metis
  then have "outcome_of (?s ! 2) = outcome_of (served (demo_batch ! 2))"
    by (rule outcome_of_served)
  with s(3) have o2: "outcome_of (?s ! 2) = (200, None)"
    by (rule back_subst [where P = "\<lambda>v. outcome_of (?s ! 2) = v", rotated])
  from l c o0 o1 o2 unreachable_capture show ?thesis by blast
qed

section \<open>Properties of the components taken from the specification\<close>

text \<open>
  C7. For two artifacts in time order, \<open>compareArtifacts\<close> gives
  \<open>differencePercent = 100 * |size current - size previous| / max (size previous) 1\<close> over
  the byte lengths of the payloads and \<open>changed = (differencePercent > threshold)\<close>, the
  default threshold being 5; an artifact compared with itself gives \<open>differencePercent = 0\<close>
  and \<open>changed = False\<close>.
\<close>

theorem compareArtifacts_size_difference:
  "(art_timestamp previous \<le> art_timestamp current \<longrightarrow>
      (\<exists>rec. compareArtifactsWith threshold previous current = Inr rec
         \<and> differencePercent rec =
             100 * of_int \<bar>int (length (art_payload current)) - int (length (art_payload previous))\<bar>
               / of_nat (max (length (art_payload previous)) 1)
         \<and> changed rec = (threshold < differencePercent rec)
         \<and> cr_previous rec = previous \<and> cr_current rec = current))
   \<and> compareArtifacts previous current = compareArtifactsWith 5 previous current
   \<and> compareArtifacts a a =
       Inr \<lparr> cr_previous = a, cr_current = a, changed = False, differencePercent = 0 \<rparr>"
  by (simp add: compareArtifacts_def compareArtifactsWith_def default_threshold_def
      payload_size_def Let_def)

theorem compareArtifacts_size_difference_witness:
  "art_timestamp demo_artifact \<le> art_timestamp grown_artifact
   \<and> compareArtifacts demo_artifact grown_artifact =
       Inr \<lparr> cr_previous = demo_artifact, cr_current = grown_artifact, changed = True,
             differencePercent = 25 \<rparr>
   \<and> compareArtifacts demo_artifact demo_artifact =
       Inr \<lparr> cr_previous = demo_artifact, cr_current = demo_artifact, changed = False,
             differencePercent = 0 \<rparr>"
proof -
  have h: "art_timestamp demo_artifact \<le> art_timestamp grown_artifact"
    by (simp add: demo_artifact_def grown_artifact_def)
  from compareArtifacts_size_difference [of demo_artifact grown_artifact 5 demo_artifact] h
  obtain rec where r: "compareArtifacts demo_artifact grown_artifact = Inr rec"
      "differencePercent rec =
         100 * of_int \<bar>int (length (art_payload grown_artifact)) - int (length (art_payload demo_artifact))\<bar>
           / of_nat (max (length (art_payload demo_artifact)) 1)"
      "changed rec = (5 < differencePercent rec)"
      "cr_previous rec = demo_artifact" "cr_current rec = grown_artifact"
      and s: "compareArtifacts demo_artifact demo_artifact =
       Inr \<lparr> cr_previous = demo_artifact, cr_current = demo_artifact, changed = False,
             differencePercent = 0 \<rparr>"
    by auto
  have d: "differencePercent rec = 25"
    using r(2) by (simp add: demo_artifact_def grown_artifact_def)
  have "rec = \<lparr> cr_previous = demo_artifact, cr_current = grown_artifact, changed = True,
               differencePercent = 25 \<rparr>"
    using r(3,4,5) d by (cases rec) simp
  with r(1) h s show ?thesis by simp
qed

text \<open>
  C8. \<open>runBatch\<close> rejects the whole batch with a validation error, having made no Browser
  Capability call, whenever the concurrency limit is less than 1 or two requests of the
  batch share an \<open>outputKey\<close>.
\<close>

theorem runBatch_rejects_before_any_capture:
  "n < 1 \<or> \<not> distinct (map cq_outputKey requests) \<Longrightarrow>
     runBatch cap requests n = ([], Inl ValidationError)"
  by (simp add: runBatch_def)

theorem runBatch_rejects_before_any_capture_witness:
  "\<not> distinct (map cq_outputKey [demo_capture_request, demo_capture_request])
   \<and> runBatch demo_capability [demo_capture_request, demo_capture_request] 3
       = ([], Inl ValidationError)
   \<and> runBatch demo_capability [demo_capture_request] 0 = ([], Inl ValidationError)
   \<and> fst (runBatch demo_capability [demo_capture_request] 3) = [demo_capture_request]"
proof -
  have h: "(3 :: int) < 1 \<or> \<not> distinct (map cq_outputKey [demo_capture_request, demo_capture_request])"
    by simp
  have z: "(0 :: int) < 1 \<or> \<not> distinct (map cq_outputKey [demo_capture_request])"
    by simp
  from runBatch_rejects_before_any_capture [OF h, of demo_capability]
    runBatch_rejects_before_any_capture [OF z, of demo_capability]
  show ?thesis by (simp add: runBatch_def)
qed

end
